theory Spec2Isabelle
  imports Main
begin

section \<open>Data model\<close>

text \<open>
  The relational store of the healthcare back end, table by table, as the schema declares
  it. A calendar date is the number of days since 1970-01-01, a time of day is the number
  of seconds since midnight (a TIME column), a clock reading is in whole seconds, and a
  money amount is in cents.
\<close>

type_synonym date = nat
type_synonym time = nat

datatype role = Patient | Doctor | Admin

datatype weekday = Sunday | Monday | Tuesday | Wednesday | Thursday | Friday | Saturday

datatype appointment_status =
  Scheduled | Confirmed | InProgress | Completed | Cancelled | NoShow

datatype appointment_type = InPerson | Virtual

datatype payment_status = Pending | Paid | Refunded

text \<open>
  bcrypt is modelled as an ideal one-way hash: the stored value remembers what was hashed,
  and \<open>compare\<close> answers whether the presented value is the one that was hashed.
\<close>

datatype 'a bcrypt_hash = BcryptHash 'a

fun bcrypt_compare :: "'a \<Rightarrow> 'a bcrypt_hash \<Rightarrow> bool" where
  "bcrypt_compare s (BcryptHash s') = (s = s')"

text \<open>
  A JSON web token. \<open>jwt.sign\<close> stamps the payload with the clock in whole seconds
  (\<open>iat\<close>), adds the expiry and signs with HMAC; no nonce or token id is passed by the
  code, so the token is a function of the key, the user id, the second of issue and the
  lifetime.
\<close>

datatype signing_key = JWT_SECRET | JWT_REFRESH_SECRET | ForeignKey

record payload =
  userId :: nat
  iat :: nat
  exp :: nat

datatype token = Signed signing_key payload | Malformed

record user =
  u_id :: nat
  email :: string
  password_hash :: "string bcrypt_hash"
  u_role :: role
  is_active :: bool

record doctor =
  d_id :: nat
  d_user_id :: nat
  specialization :: string
  license_number :: string
  d_consultation_fee :: nat
  is_available :: bool

record doctor_availability_row =
  da_doctor_id :: nat
  day_of_week :: weekday
  start_time :: time
  end_time :: time
  da_is_active :: bool

record appointment =
  a_id :: nat
  patient_id :: nat
  doctor_id :: nat
  appointment_date :: date
  appointment_time :: time
  duration_minutes :: int
  a_type :: appointment_type
  status :: appointment_status
  reason_for_visit :: string
  a_notes :: "string option"
  virtual_meeting_url :: "string option"
  consultation_fee :: nat
  a_payment_status :: payment_status

record refresh_token_row =
  rt_id :: nat
  rt_user_id :: nat
  token_hash :: "token bcrypt_hash"
  expires_at :: nat
  is_revoked :: bool

text \<open>
  The store: the five tables the core reads and writes, with the AUTO_INCREMENT counters
  of the tables the handlers insert into.
\<close>

record db =
  users :: "user list"
  doctors :: "doctor list"
  doctor_availability :: "doctor_availability_row list"
  appointments :: "appointment list"
  refresh_tokens :: "refresh_token_row list"
  next_user_id :: nat
  next_doctor_id :: nat
  next_appointment_id :: nat
  next_refresh_token_id :: nat

text \<open>
  Every failure a handler or a middleware can answer with. The first block is the
  error classes of \<open>errorHandler.js\<close>; \<open>ReferenceError\<close> is what
  \<open>throw new ValidationError(...)\<close> raises in the two route files that never import
  \<open>ValidationError\<close>; \<open>DuplicateEntry\<close> and \<open>DatabaseError\<close> are MySQL's
  \<open>ER_DUP_ENTRY\<close> and any other rejected statement; the rest are the JSON answers the
  middlewares and handlers send themselves.
\<close>

datatype error =
    NotFoundError
  | UnauthorizedError
  | ForbiddenError
  | ConflictError
  | AppError nat
  | ReferenceError
  | DuplicateEntry
  | DatabaseError
  | JsonWebTokenError
  | TokenExpiredError
  | ValidationFailed
  | BadRequest
  | TokenMissing
  | InvalidToken
  | TokenExpired
  | AuthRequired
  | InsufficientPermissions

text \<open>The HTTP status each failure is answered with (\<open>errorHandler\<close> and the direct answers).\<close>

fun http_status :: "error \<Rightarrow> nat" where
  "http_status NotFoundError = 404"
| "http_status UnauthorizedError = 401"
| "http_status ForbiddenError = 403"
| "http_status ConflictError = 409"
| "http_status (AppError code) = code"
| "http_status ReferenceError = 500"
| "http_status DuplicateEntry = 409"
| "http_status DatabaseError = 500"
| "http_status JsonWebTokenError = 401"
| "http_status TokenExpiredError = 401"
| "http_status ValidationFailed = 400"
| "http_status BadRequest = 400"
| "http_status TokenMissing = 401"
| "http_status InvalidToken = 401"
| "http_status TokenExpired = 401"
| "http_status AuthRequired = 401"
| "http_status InsufficientPermissions = 403"

text \<open>
  A handler that runs inside \<open>beginTransaction\<close> ... \<open>commit\<close> with \<open>rollback\<close> in its
  \<open>catch\<close>: the body works on the connection's view of the store; an error restores
  the store the transaction started from.
\<close>

definition transaction :: "(db \<Rightarrow> error + db \<times> 'a) \<Rightarrow> db \<Rightarrow> db \<times> (error + 'a)" where
  "transaction body store =
     (case body store of
        Inl e \<Rightarrow> (store, Inl e)
      | Inr (store', r) \<Rightarrow> (store', Inr r))"

section \<open>Dates and the server's time zone\<close>

text \<open>
  A JavaScript \<open>Date\<close> is an instant: the milliseconds since 1970-01-01T00:00Z. What
  \<open>getDay()\<close> and \<open>setHours()\<close> read and set is the local time of the server, so the
  server's time zone is a parameter of every handler that uses them: the number of minutes
  local time is ahead of UTC (negative west of Greenwich), the same at the instants that
  are compared.
\<close>

type_synonym zone = int

text \<open>\<open>new Date('YYYY-MM-DD')\<close>: a date-only string is read as midnight UTC of that date.\<close>

definition dateOnly :: "date \<Rightarrow> int" where
  "dateOnly day = int day * 86400000"

text \<open>\<open>new Date()\<close>, the clock being given in whole seconds.\<close>

definition dateNow :: "nat \<Rightarrow> int" where
  "dateNow now = int now * 1000"

text \<open>The local calendar day an instant falls on, counted from 1970-01-01.\<close>

definition localDay :: "zone \<Rightarrow> int \<Rightarrow> int" where
  "localDay tz t = (t + tz * 60000) div 86400000"

text \<open>\<open>getDay()\<close>: the local day of the week, 0 for Sunday; 1970-01-01 was a Thursday.\<close>

definition getDay :: "zone \<Rightarrow> int \<Rightarrow> nat" where
  "getDay tz t = nat ((localDay tz t + 4) mod 7)"

text \<open>\<open>setHours(0, 0, 0, 0)\<close>: the instant of local midnight on the instant's local day.\<close>

definition setHoursZero :: "zone \<Rightarrow> int \<Rightarrow> int" where
  "setHoursZero tz t = localDay tz t * 86400000 - tz * 60000"

text \<open>\<open>idValidation\<close>: the \<open>:id\<close> parameter is an integer, at least 1.\<close>

definition idValidation :: "nat \<Rightarrow> bool" where
  "idValidation i = (i \<ge> 1)"

section \<open>Scheduling engine: slots of a day\<close>

text \<open>
  \<open>GET /doctors/:id/availability/:date\<close>. The times of a window and of a booking are
  read as local times of the reference day 2000-01-01 (\<open>new Date(`2000-01-01 ${time}`)\<close>)
  and printed as local times, so within the loop a \<open>Date\<close> is its distance from that
  day's local midnight in milliseconds.
\<close>

definition parseTime :: "time \<Rightarrow> int" where
  "parseTime t = int t * 1000"

definition pad2 :: "nat \<Rightarrow> string" where
  "pad2 n = [''0123456789'' ! ((n div 10) mod 10), ''0123456789'' ! (n mod 10)]"

text \<open>\<open>toTimeString().slice(0, 5)\<close>: hours and minutes, two digits each.\<close>

definition timeString :: "int \<Rightarrow> string" where
  "timeString ms =
     pad2 ((nat ms div 3600000) mod 24) @ '':'' @ pad2 ((nat ms div 60000) mod 60)"

record booked_slot =
  bs_appointment_time :: time
  bs_duration_minutes :: int

record slot =
  slot_time :: string
  available :: bool

definition isBooked :: "int \<Rightarrow> booked_slot list \<Rightarrow> bool" where
  "isBooked currentTime bookedSlots =
     list_ex (\<lambda>slot.
        let slotStart = parseTime (bs_appointment_time slot);
            slotEnd = slotStart + bs_duration_minutes slot * 60000;
            currentSlotEnd = currentTime + 30 * 60000
        in (currentTime \<ge> slotStart \<and> currentTime < slotEnd) \<or>
           (currentSlotEnd > slotStart \<and> currentSlotEnd \<le> slotEnd))
       bookedSlots"

text \<open>
  The \<open>while (currentTime < endTime)\<close> loop: \<open>slots\<close> is the array built so far, and
  each round moves \<open>currentTime\<close> on by thirty minutes.
\<close>

function slotLoop :: "int \<Rightarrow> int \<Rightarrow> booked_slot list \<Rightarrow> slot list \<Rightarrow> slot list" where
  "slotLoop currentTime endTime bookedSlots slots =
     (if currentTime < endTime
      then slotLoop (currentTime + 30 * 60000) endTime bookedSlots
             (if \<not> isBooked currentTime bookedSlots
              then slots @ [\<lparr>slot_time = timeString currentTime, available = True\<rparr>]
              else slots)
      else slots)"
  by pat_completeness auto
termination
  by (relation "measure (\<lambda>(currentTime, endTime, bookedSlots, slots). nat (endTime - currentTime))")
     auto

declare slotLoop.simps [simp del]

definition generateSlots :: "time \<Rightarrow> time \<Rightarrow> booked_slot list \<Rightarrow> slot list" where
  "generateSlots start_t end_t bookedSlots =
     slotLoop (parseTime start_t) (parseTime end_t) bookedSlots []"

definition dayNames :: "weekday list" where
  "dayNames = [Sunday, Monday, Tuesday, Wednesday, Thursday, Friday, Saturday]"

text \<open>The two queries of the handler; a JOIN is the list of matching combinations.\<close>

definition availabilityQuery :: "db \<Rightarrow> nat \<Rightarrow> weekday \<Rightarrow> (time \<times> time) list" where
  "availabilityQuery store doctorId dayOfWeek =
     [(start_time da, end_time da).
        da \<leftarrow> doctor_availability store,
        d \<leftarrow> doctors store, da_doctor_id da = d_id d,
        u \<leftarrow> users store, d_user_id d = u_id u,
        da_doctor_id da = doctorId \<and> day_of_week da = dayOfWeek \<and> da_is_active da
          \<and> is_available d \<and> is_active u]"

definition bookedSlotsQuery :: "db \<Rightarrow> nat \<Rightarrow> date \<Rightarrow> booked_slot list" where
  "bookedSlotsQuery store doctorId day =
     [\<lparr>bs_appointment_time = appointment_time a, bs_duration_minutes = duration_minutes a\<rparr>.
        a \<leftarrow> appointments store,
        doctor_id a = doctorId \<and> appointment_date a = day
          \<and> status a \<in> {Scheduled, Confirmed, InProgress}]"

text \<open>
  The answer; \<open>doctorAvailability\<close> and \<open>totalSlots\<close> are absent from the answer for a
  day without a window.
\<close>

record availability_response =
  resp_date :: date
  resp_dayOfWeek :: weekday
  doctorAvailability :: "(time \<times> time) option"
  availableSlots :: "slot list"
  totalSlots :: "nat option"

text \<open>
  The route: \<open>optionalAuth\<close> (which never refuses, and whose \<open>req.user\<close> the handler does
  not read), \<open>idValidation\<close>, and the handler. The \<open>:date\<close> parameter is \<open>None\<close> when it
  fails the \<open>YYYY-MM-DD\<close> test and the calendar date it names otherwise. \<open>appointmentDate\<close>
  is midnight UTC of that date, \<open>today\<close> is the server's local midnight, and the day of the
  week is read from \<open>appointmentDate\<close> in local time. Only the first row of the
  availability query is used (\<open>availability[0]\<close>); the bookings are looked up under the
  date string itself.
\<close>

definition getAvailability ::
  "db \<Rightarrow> zone \<Rightarrow> nat \<Rightarrow> nat \<Rightarrow> date option \<Rightarrow> error + availability_response" where
  "getAvailability store tz now doctorId dateParam =
     (if \<not> idValidation doctorId then Inl ValidationFailed
      else
        (case dateParam of
           None \<Rightarrow> Inl BadRequest
         | Some day \<Rightarrow>
             let appointmentDate = dateOnly day;
                 today = setHoursZero tz (dateNow now)
             in
             if appointmentDate < today then Inl BadRequest
             else
               let dayOfWeek = dayNames ! getDay tz appointmentDate in
               (case availabilityQuery store doctorId dayOfWeek of
                  [] \<Rightarrow> Inr \<lparr>resp_date = day, resp_dayOfWeek = dayOfWeek,
                             doctorAvailability = None, availableSlots = [],
                             totalSlots = None\<rparr>
                | (start_t, end_t) # _ \<Rightarrow>
                    let bookedSlots = bookedSlotsQuery store doctorId day;
                        slots = generateSlots start_t end_t bookedSlots
                    in Inr \<lparr>resp_date = day, resp_dayOfWeek = dayOfWeek,
                             doctorAvailability = Some (start_t, end_t),
                             availableSlots = slots, totalSlots = Some (length slots)\<rparr>)))"


text \<open>
  What the loop visits: the candidate start times, thirty minutes apart, from the start
  of the window up to but not including its end.
\<close>

function candidateTimes :: "int \<Rightarrow> int \<Rightarrow> int list" where
  "candidateTimes c e = (if c < e then c # candidateTimes (c + 30 * 60000) e else [])"
  by pat_completeness auto
termination
  by (relation "measure (\<lambda>(c, e). nat (e - c))") auto

declare candidateTimes.simps [simp del]

definition mkSlot :: "int \<Rightarrow> slot" where
  "mkSlot t = \<lparr>slot_time = timeString t, available = True\<rparr>"

text \<open>A time of day written as hours and minutes.\<close>

definition hm :: "nat \<Rightarrow> nat \<Rightarrow> time" where
  "hm h m = h * 3600 + m * 60"

section \<open>Auth session manager\<close>

text \<open>
  \<open>jwt.verify\<close>: a token that is not a well-formed token signed with the given key raises
  \<open>JsonWebTokenError\<close>; one whose expiry has been reached raises \<open>TokenExpiredError\<close>.
\<close>

fun jwt_verify :: "token \<Rightarrow> signing_key \<Rightarrow> nat \<Rightarrow> error + payload" where
  "jwt_verify Malformed secret now = Inl JsonWebTokenError"
| "jwt_verify (Signed k p) secret now =
     (if k \<noteq> secret then Inl JsonWebTokenError
      else if now \<ge> exp p then Inl TokenExpiredError
      else Inr p)"

definition jwt_sign :: "nat \<Rightarrow> signing_key \<Rightarrow> nat \<Rightarrow> nat \<Rightarrow> token" where
  "jwt_sign uid secret expiresIn now =
     Signed secret \<lparr>userId = uid, iat = now, exp = now + expiresIn\<rparr>"

text \<open>The two lifetimes of the environment, in seconds (24h and 7d when unset).\<close>

record env =
  JWT_EXPIRES_IN :: nat
  JWT_REFRESH_EXPIRES_IN :: nat

definition default_env :: env where
  "default_env = \<lparr>JWT_EXPIRES_IN = 24 * 3600, JWT_REFRESH_EXPIRES_IN = 7 * 24 * 3600\<rparr>"

record tokens =
  accessToken :: token
  refreshToken :: token

definition generateTokens :: "env \<Rightarrow> nat \<Rightarrow> nat \<Rightarrow> tokens" where
  "generateTokens e uid now =
     \<lparr>accessToken = jwt_sign uid JWT_SECRET (JWT_EXPIRES_IN e) now,
      refreshToken = jwt_sign uid JWT_REFRESH_SECRET (JWT_REFRESH_EXPIRES_IN e) now\<rparr>"

record req_user =
  req_id :: nat
  req_email :: string
  req_role :: role

text \<open>
  The \<open>authenticateToken\<close> middleware. The header is given as the bearer token it
  carries, \<open>None\<close> when there is none. The answer is the failure sent, or \<open>req.user\<close>.
\<close>

definition authenticateToken :: "db \<Rightarrow> nat \<Rightarrow> token option \<Rightarrow> error + req_user" where
  "authenticateToken store now authHeader =
     (case authHeader of
        None \<Rightarrow> Inl TokenMissing
      | Some t \<Rightarrow>
          (case jwt_verify t JWT_SECRET now of
             Inl e \<Rightarrow> Inl (if e = TokenExpiredError then TokenExpired else InvalidToken)
           | Inr decoded \<Rightarrow>
               (case [u. u \<leftarrow> users store, u_id u = userId decoded \<and> is_active u] of
                  [] \<Rightarrow> Inl InvalidToken
                | u # _ \<Rightarrow>
                    Inr \<lparr>req_id = u_id u, req_email = email u, req_role = u_role u\<rparr>)))"

text \<open>\<open>authorizeRoles(...roles)\<close>: the failure sent, or \<open>None\<close> when \<open>next()\<close> is called.\<close>

definition authorizeRoles :: "role list \<Rightarrow> req_user option \<Rightarrow> error option" where
  "authorizeRoles roles u =
     (case u of
        None \<Rightarrow> Some AuthRequired
      | Some usr \<Rightarrow>
          if req_role usr \<notin> set roles then Some InsufficientPermissions else None)"

definition insertRefreshToken :: "nat \<Rightarrow> token \<Rightarrow> nat \<Rightarrow> db \<Rightarrow> db" where
  "insertRefreshToken uid t expiresAt store =
     store\<lparr>refresh_tokens := refresh_tokens store @
              [\<lparr>rt_id = next_refresh_token_id store, rt_user_id = uid,
                token_hash = BcryptHash t, expires_at = expiresAt, is_revoked = False\<rparr>],
            next_refresh_token_id := Suc (next_refresh_token_id store)\<rparr>"

definition sevenDays :: nat where
  "sevenDays = 7 * 24 * 60 * 60"

text \<open>\<open>POST /login\<close>, after its validation.\<close>

definition login :: "env \<Rightarrow> nat \<Rightarrow> string \<Rightarrow> string \<Rightarrow> db \<Rightarrow> db \<times> (error + tokens)" where
  "login e now mail password store =
     (case [u. u \<leftarrow> users store, email u = mail] of
        [] \<Rightarrow> (store, Inl UnauthorizedError)
      | usr # _ \<Rightarrow>
          if \<not> is_active usr then (store, Inl UnauthorizedError)
          else if \<not> bcrypt_compare password (password_hash usr) then (store, Inl UnauthorizedError)
          else
            let ts = generateTokens e (u_id usr) now
            in (insertRefreshToken (u_id usr) (refreshToken ts) (now + sevenDays) store, Inr ts))"

text \<open>\<open>UPDATE refresh_tokens SET is_revoked = TRUE WHERE id = ?\<close>\<close>

definition revokeToken :: "nat \<Rightarrow> db \<Rightarrow> db" where
  "revokeToken tid store =
     store\<lparr>refresh_tokens :=
       map (\<lambda>r. if rt_id r = tid then r\<lparr>is_revoked := True\<rparr> else r) (refresh_tokens store)\<rparr>"

text \<open>
  \<open>POST /refresh\<close>. The body's \<open>refreshToken\<close> is \<open>None\<close> when missing or empty. The
  \<open>for\<close> loop with its \<open>break\<close> keeps the first live row whose hash matches.
\<close>

definition refresh :: "env \<Rightarrow> nat \<Rightarrow> token option \<Rightarrow> db \<Rightarrow> db \<times> (error + tokens)" where
  "refresh e now body_refreshToken store =
     (case body_refreshToken of
        None \<Rightarrow> (store, Inl UnauthorizedError)
      | Some t \<Rightarrow>
          (case jwt_verify t JWT_REFRESH_SECRET now of
             Inl err \<Rightarrow> (store, Inl err)
           | Inr decoded \<Rightarrow>
               let live = [r. r \<leftarrow> refresh_tokens store,
                              rt_user_id r = userId decoded \<and> expires_at r > now
                                \<and> \<not> is_revoked r]
               in (case find (\<lambda>r. bcrypt_compare t (token_hash r)) live of
                     None \<Rightarrow> (store, Inl UnauthorizedError)
                   | Some validToken \<Rightarrow>
                       let ts = generateTokens e (userId decoded) now;
                           store1 = revokeToken (rt_id validToken) store;
                           store2 = insertRefreshToken (userId decoded) (refreshToken ts)
                                      (now + sevenDays) store1
                       in (store2, Inr ts))))"

text \<open>
  \<open>PUT /users/:id/status\<close>, the admin's handler that activates or deactivates an
  account; deactivating also revokes every refresh token of the account.
\<close>

definition updateUserStatus :: "req_user \<Rightarrow> nat \<Rightarrow> bool \<Rightarrow> db \<Rightarrow> db \<times> (error + unit)" where
  "updateUserStatus admin uid isActive store =
     (if uid = req_id admin \<and> \<not> isActive then (store, Inl BadRequest)
      else if [u. u \<leftarrow> users store, u_id u = uid] = [] then (store, Inl NotFoundError)
      else
        let store1 = store\<lparr>users :=
              map (\<lambda>u. if u_id u = uid then u\<lparr>is_active := isActive\<rparr> else u) (users store)\<rparr>;
            store2 = (if \<not> isActive
                      then store1\<lparr>refresh_tokens :=
                             map (\<lambda>r. if rt_user_id r = uid then r\<lparr>is_revoked := True\<rparr> else r)
                               (refresh_tokens store1)\<rparr>
                      else store1)
        in (store2, Inr ()))"


section \<open>Appointment lifecycle controller\<close>

subsection \<open>Create\<close>

text \<open>
  The body of \<open>POST /appointments\<close>. \<open>durationMinutes\<close> is optional; keys the handler
  does not read (a \<open>patientId\<close> among them) are kept as \<open>cb_otherKeys\<close> with their values.
\<close>

record create_body =
  cb_doctorId :: nat
  cb_appointmentDate :: date
  cb_appointmentTime :: time
  cb_durationMinutes :: "int option"
  cb_type :: appointment_type
  cb_reasonForVisit :: string
  cb_otherKeys :: "(string \<times> nat) list"

definition isSpace :: "char \<Rightarrow> bool" where
  "isSpace c = (c \<in> set [CHR '' '', CHR 0x09, CHR 0x0A, CHR 0x0B, CHR 0x0C, CHR 0x0D])"

definition trim :: "string \<Rightarrow> string" where
  "trim s = rev (dropWhile isSpace (rev (dropWhile isSpace s)))"

text \<open>
  \<open>createAppointmentValidation\<close> on the typed body: the doctor id is at least 1, the
  date read as midnight UTC is not before the server's local midnight (the \<open>custom\<close>
  check), the time is a time of day in whole minutes, the trimmed reason has 10 to 500
  characters, and a given duration is between 15 and 120.
\<close>

definition createAppointmentValidation :: "zone \<Rightarrow> nat \<Rightarrow> create_body \<Rightarrow> bool" where
  "createAppointmentValidation tz now body =
     (cb_doctorId body \<ge> 1
      \<and> \<not> dateOnly (cb_appointmentDate body) < setHoursZero tz (dateNow now)
      \<and> cb_appointmentTime body < 24 * 3600 \<and> cb_appointmentTime body mod 60 = 0
      \<and> length (trim (cb_reasonForVisit body)) \<ge> 10
      \<and> length (trim (cb_reasonForVisit body)) \<le> 500
      \<and> (case cb_durationMinutes body of None \<Rightarrow> True | Some n \<Rightarrow> 15 \<le> n \<and> n \<le> 120))"

definition availableDoctors :: "db \<Rightarrow> nat \<Rightarrow> doctor list" where
  "availableDoctors store doctorId =
     [d. d \<leftarrow> doctors store, u \<leftarrow> users store, d_user_id d = u_id u,
         d_id d = doctorId \<and> is_available d \<and> is_active u]"

text \<open>
  The conflict query of create and update: the rows of that doctor at exactly that date
  and time whose status is scheduled or confirmed, leaving out the row \<open>exclude\<close> when one
  is given (\<open>AND id != ?\<close> in update).
\<close>

definition conflicts :: "db \<Rightarrow> nat \<Rightarrow> date \<Rightarrow> time \<Rightarrow> nat option \<Rightarrow> appointment list" where
  "conflicts store doctorId day t exclude =
     [a. a \<leftarrow> appointments store,
         doctor_id a = doctorId \<and> appointment_date a = day \<and> appointment_time a = t
           \<and> status a \<in> {Scheduled, Confirmed}
           \<and> (case exclude of None \<Rightarrow> True | Some i \<Rightarrow> a_id a \<noteq> i)]"

text \<open>
  The table's \<open>UNIQUE KEY unique_doctor_datetime (doctor_id, appointment_date,
  appointment_time)\<close>: whether a row other than \<open>self\<close> already holds the key.
\<close>

definition unique_doctor_datetime_taken :: "db \<Rightarrow> nat \<Rightarrow> date \<Rightarrow> time \<Rightarrow> nat option \<Rightarrow> bool" where
  "unique_doctor_datetime_taken store doctorId day t self =
     list_ex (\<lambda>a. doctor_id a = doctorId \<and> appointment_date a = day \<and> appointment_time a = t
                  \<and> (case self of None \<Rightarrow> True | Some i \<Rightarrow> a_id a \<noteq> i))
       (appointments store)"

text \<open>
  The handler of \<open>POST /appointments\<close> between \<open>beginTransaction\<close> and \<open>commit\<close>.
  \<open>room\<close> is the random room name drawn for a virtual appointment.
\<close>

definition createAppointment ::
  "req_user \<Rightarrow> create_body \<Rightarrow> string \<Rightarrow> db \<Rightarrow> error + db \<times> appointment" where
  "createAppointment usr body room store =
     (case availableDoctors store (cb_doctorId body) of
        [] \<Rightarrow> Inl NotFoundError
      | doc # _ \<Rightarrow>
          if conflicts store (cb_doctorId body) (cb_appointmentDate body)
               (cb_appointmentTime body) None \<noteq> []
          then Inl ConflictError
          else
            let virtualMeetingUrl =
                  (if cb_type body = Virtual
                   then Some (''https://meet.healthcare.com/room/'' @ room) else None);
                row = \<lparr>a_id = next_appointment_id store,
                       patient_id = req_id usr,
                       doctor_id = cb_doctorId body,
                       appointment_date = cb_appointmentDate body,
                       appointment_time = cb_appointmentTime body,
                       duration_minutes =
                         (case cb_durationMinutes body of None \<Rightarrow> 30 | Some n \<Rightarrow> n),
                       a_type = cb_type body,
                       status = Scheduled,
                       reason_for_visit = cb_reasonForVisit body,
                       a_notes = None,
                       virtual_meeting_url = virtualMeetingUrl,
                       consultation_fee = d_consultation_fee doc,
                       a_payment_status = Pending\<rparr>
            in if unique_doctor_datetime_taken store (cb_doctorId body)
                    (cb_appointmentDate body) (cb_appointmentTime body) None
               then Inl DuplicateEntry
               else Inr (store\<lparr>appointments := appointments store @ [row],
                               next_appointment_id := Suc (next_appointment_id store)\<rparr>,
                         row))"

text \<open>
  The whole route: \<open>authenticateToken\<close>, \<open>authorizeRoles('patient')\<close>,
  \<open>createAppointmentValidation\<close> (whose \<open>trim\<close> rewrites the reason), then the handler
  in its transaction.
\<close>

definition postAppointments ::
  "db \<Rightarrow> zone \<Rightarrow> nat \<Rightarrow> token option \<Rightarrow> create_body \<Rightarrow> string \<Rightarrow> db \<times> (error + appointment)" where
  "postAppointments store tz now authHeader body room =
     (case authenticateToken store now authHeader of
        Inl e \<Rightarrow> (store, Inl e)
      | Inr usr \<Rightarrow>
          (case authorizeRoles [Patient] (Some usr) of
             Some e \<Rightarrow> (store, Inl e)
           | None \<Rightarrow>
               if \<not> createAppointmentValidation tz now body then (store, Inl ValidationFailed)
               else transaction
                      (createAppointment usr
                         (body\<lparr>cb_reasonForVisit := trim (cb_reasonForVisit body)\<rparr>) room)
                      store))"

subsection \<open>Update\<close>

text \<open>
  The body of \<open>PUT /appointments/:id\<close> after JSON parsing: each of the seven fields the
  handler maps to a column is present or not, a present one with a value of the kind its
  column stores, and \<open>ub_otherKeys\<close> are the other keys of the object.
\<close>

record update_body =
  ub_appointmentDate :: "date option"
  ub_appointmentTime :: "time option"
  ub_durationMinutes :: "int option"
  ub_type :: "appointment_type option"
  ub_status :: "appointment_status option"
  ub_reasonForVisit :: "string option"
  ub_notes :: "string option"
  ub_otherKeys :: "string list"

definition fieldMapping :: "(string \<times> string) list" where
  "fieldMapping =
     [(''appointmentDate'', ''appointment_date''),
      (''appointmentTime'', ''appointment_time''),
      (''durationMinutes'', ''duration_minutes''),
      (''type'', ''type''),
      (''status'', ''status''),
      (''reasonForVisit'', ''reason_for_visit''),
      (''notes'', ''notes'')]"

definition allowedFields :: "string list" where
  "allowedFields = [''appointmentDate'', ''appointmentTime'', ''reasonForVisit'']"

text \<open>
  The properties every object literal inherits from \<open>Object.prototype\<close>. \<open>fieldMapping[key]\<close>
  finds them too: for such a key it yields a function or an object, which is truthy and
  is not a column name.
\<close>

definition objectPrototype :: "string list" where
  "objectPrototype =
     [''constructor'', ''__defineGetter__'', ''__defineSetter__'', ''hasOwnProperty'',
      ''__lookupGetter__'', ''__lookupSetter__'', ''isPrototypeOf'', ''propertyIsEnumerable'',
      ''toString'', ''valueOf'', ''__proto__'', ''toLocaleString'']"

datatype property = Column string | Inherited | Undefined

definition fieldMappingAt :: "string \<Rightarrow> property" where
  "fieldMappingAt key =
     (case map_of fieldMapping key of
        Some column \<Rightarrow> Column column
      | None \<Rightarrow> if key \<in> set objectPrototype then Inherited else Undefined)"

text \<open>\<open>Object.keys(updates)\<close>\<close>

definition keys :: "update_body \<Rightarrow> string list" where
  "keys updates =
     (if ub_appointmentDate updates \<noteq> None then [''appointmentDate''] else []) @
     (if ub_appointmentTime updates \<noteq> None then [''appointmentTime''] else []) @
     (if ub_durationMinutes updates \<noteq> None then [''durationMinutes''] else []) @
     (if ub_type updates \<noteq> None then [''type''] else []) @
     (if ub_status updates \<noteq> None then [''status''] else []) @
     (if ub_reasonForVisit updates \<noteq> None then [''reasonForVisit''] else []) @
     (if ub_notes updates \<noteq> None then [''notes''] else []) @
     filter (\<lambda>k. map_of fieldMapping k = None) (ub_otherKeys updates)"

text \<open>
  The \<open>forEach\<close> that builds \<open>updateFields\<close>: one entry for every key of the body at which
  \<open>fieldMapping\<close> is truthy.
\<close>

definition updateFields :: "update_body \<Rightarrow> property list" where
  "updateFields updates =
     filter (\<lambda>p. p \<noteq> Undefined) (map fieldMappingAt (keys updates))"

text \<open>The \<open>SET\<close> list of the \<open>UPDATE\<close>, applied to one row.\<close>

definition applyUpdates :: "update_body \<Rightarrow> appointment \<Rightarrow> appointment" where
  "applyUpdates updates a =
     a\<lparr>appointment_date :=
         (case ub_appointmentDate updates of None \<Rightarrow> appointment_date a | Some v \<Rightarrow> v),
       appointment_time :=
         (case ub_appointmentTime updates of None \<Rightarrow> appointment_time a | Some v \<Rightarrow> v),
       duration_minutes :=
         (case ub_durationMinutes updates of None \<Rightarrow> duration_minutes a | Some v \<Rightarrow> v),
       a_type := (case ub_type updates of None \<Rightarrow> a_type a | Some v \<Rightarrow> v),
       status := (case ub_status updates of None \<Rightarrow> status a | Some v \<Rightarrow> v),
       reason_for_visit :=
         (case ub_reasonForVisit updates of None \<Rightarrow> reason_for_visit a | Some v \<Rightarrow> v),
       a_notes := (case ub_notes updates of None \<Rightarrow> a_notes a | Some v \<Rightarrow> Some v)\<rparr>"

text \<open>\<open>SELECT a.*, d.user_id as doctor_user_id FROM appointments a JOIN doctors d ... WHERE a.id = ?\<close>\<close>

definition appointmentWithDoctor :: "db \<Rightarrow> nat \<Rightarrow> (appointment \<times> nat) list" where
  "appointmentWithDoctor store appointmentId =
     [(a, d_user_id d). a \<leftarrow> appointments store, d \<leftarrow> doctors store,
        doctor_id a = d_id d, a_id a = appointmentId]"

definition canUpdate :: "req_user \<Rightarrow> appointment \<Rightarrow> nat \<Rightarrow> bool" where
  "canUpdate usr a doctor_user_id =
     (req_role usr = Admin \<or>
      (req_role usr = Patient \<and> patient_id a = req_id usr) \<or>
      (req_role usr = Doctor \<and> doctor_user_id = req_id usr))"

text \<open>
  \<open>updates.appointmentDate || appointment.appointment_date\<close> and the same for the time:
  the date and time the appointment has after the update.
\<close>

definition newDate :: "update_body \<Rightarrow> appointment \<Rightarrow> date" where
  "newDate updates a =
     (case ub_appointmentDate updates of None \<Rightarrow> appointment_date a | Some v \<Rightarrow> v)"

definition newTime :: "update_body \<Rightarrow> appointment \<Rightarrow> time" where
  "newTime updates a =
     (case ub_appointmentTime updates of None \<Rightarrow> appointment_time a | Some v \<Rightarrow> v)"

text \<open>
  The handler of \<open>PUT /appointments/:id\<close> between \<open>beginTransaction\<close> and \<open>commit\<close>; the
  answer carries the row as read back after the update. With no entry in \<open>updateFields\<close>
  the handler throws a \<open>ValidationError\<close>, a class this file does not import. An entry
  for an inherited property puts the text of a function where a column name belongs, and
  the statement is rejected. The \<open>UPDATE\<close> is refused by the unique key when it moves the
  row onto a date and time another row of that doctor holds.
\<close>

definition updateAppointment ::
  "req_user \<Rightarrow> nat \<Rightarrow> update_body \<Rightarrow> db \<Rightarrow> error + db \<times> appointment" where
  "updateAppointment usr appointmentId updates store =
     (case appointmentWithDoctor store appointmentId of
        [] \<Rightarrow> Inl NotFoundError
      | (a, doctor_user_id) # _ \<Rightarrow>
          if \<not> canUpdate usr a doctor_user_id then Inl ForbiddenError
          else if req_role usr = Patient \<and> status a \<noteq> Scheduled then Inl ForbiddenError
          else if req_role usr = Patient
                  \<and> list_ex (\<lambda>key. key \<notin> set allowedFields) (keys updates)
          then Inl ForbiddenError
          else if (ub_appointmentDate updates \<noteq> None \<or> ub_appointmentTime updates \<noteq> None)
                  \<and> conflicts store (doctor_id a) (newDate updates a) (newTime updates a)
                        (Some appointmentId) \<noteq> []
          then Inl ConflictError
          else if updateFields updates = [] then Inl ReferenceError
          else if Inherited \<in> set (updateFields updates) then Inl DatabaseError
          else if (newDate updates a \<noteq> appointment_date a
                     \<or> newTime updates a \<noteq> appointment_time a)
                  \<and> unique_doctor_datetime_taken store (doctor_id a) (newDate updates a)
                        (newTime updates a) (Some appointmentId)
          then Inl DuplicateEntry
          else Inr (store\<lparr>appointments :=
                            map (\<lambda>r. if a_id r = appointmentId then applyUpdates updates r else r)
                              (appointments store)\<rparr>,
                    applyUpdates updates a))"

text \<open>
  \<open>updateAppointmentValidation\<close> on the typed body: the id is at least 1, a given time is
  a time of day in whole minutes, and given notes have at most 1000 characters; a given
  date and a given status are well-formed by their types.
\<close>

definition updateAppointmentValidation :: "nat \<Rightarrow> update_body \<Rightarrow> bool" where
  "updateAppointmentValidation appointmentId body =
     (appointmentId \<ge> 1
      \<and> (case ub_appointmentTime body of
            None \<Rightarrow> True | Some t \<Rightarrow> t < 24 * 3600 \<and> t mod 60 = 0)
      \<and> (case ub_notes body of None \<Rightarrow> True | Some n \<Rightarrow> length n \<le> 1000))"

text \<open>
  The whole route: \<open>authenticateToken\<close>, \<open>updateAppointmentValidation\<close>, then the handler
  in its transaction.
\<close>

definition putAppointment ::
  "db \<Rightarrow> nat \<Rightarrow> token option \<Rightarrow> nat \<Rightarrow> update_body \<Rightarrow> db \<times> (error + appointment)" where
  "putAppointment store now authHeader appointmentId updates =
     (case authenticateToken store now authHeader of
        Inl e \<Rightarrow> (store, Inl e)
      | Inr usr \<Rightarrow>
          if \<not> updateAppointmentValidation appointmentId updates
          then (store, Inl ValidationFailed)
          else transaction (updateAppointment usr appointmentId updates) store)"

subsection \<open>Cancel\<close>





section \<open>Registration\<close>

text \<open>
  The body of \<open>POST /register\<close>. The profile columns no modelled handler reads (names,
  phone, date of birth, gender) are validated but not stored in the model's \<open>users\<close> rows.
\<close>

record register_body =
  rb_email :: string
  rb_password :: string
  rb_firstName :: string
  rb_lastName :: string
  rb_role :: string
  rb_phone :: "string option"
  rb_dateOfBirth :: "string option"
  rb_specialization :: "string option"
  rb_licenseNumber :: "string option"
  rb_yearsOfExperience :: "nat option"

text \<open>The validators of the \<open>validator\<close> library that are taken as given.\<close>

record validator_lib =
  isEmail :: "string \<Rightarrow> bool"
  normalizeEmail :: "string \<Rightarrow> string"
  isISO8601 :: "string \<Rightarrow> bool"

definition isDigit :: "char \<Rightarrow> bool" where
  "isDigit c = (48 \<le> (of_char c :: nat) \<and> (of_char c :: nat) \<le> 57)"

definition isLower :: "char \<Rightarrow> bool" where
  "isLower c = (97 \<le> (of_char c :: nat) \<and> (of_char c :: nat) \<le> 122)"

definition isUpper :: "char \<Rightarrow> bool" where
  "isUpper c = (65 \<le> (of_char c :: nat) \<and> (of_char c :: nat) \<le> 90)"

text \<open>\<open>/^\+?[\d\s\-\(\)]+$/\<close>\<close>

definition phoneFormat :: "string \<Rightarrow> bool" where
  "phoneFormat s =
     (let r = (case s of c # cs \<Rightarrow> if c = CHR ''+'' then cs else s | [] \<Rightarrow> s)
      in r \<noteq> [] \<and> list_all (\<lambda>c. isDigit c \<or> isSpace c \<or> c \<in> set ''-()'') r)"

definition notEmpty :: "string option \<Rightarrow> bool" where
  "notEmpty v = (case v of None \<Rightarrow> False | Some s \<Rightarrow> s \<noteq> [])"

text \<open>\<open>registerValidation\<close>: true when \<open>handleValidationErrors\<close> finds no error.\<close>

definition registerValidation :: "validator_lib \<Rightarrow> register_body \<Rightarrow> bool" where
  "registerValidation lib body =
     (isEmail lib (rb_email body)
      \<and> length (rb_password body) \<ge> 8
      \<and> list_ex isLower (rb_password body) \<and> list_ex isUpper (rb_password body)
      \<and> list_ex isDigit (rb_password body)
      \<and> length (trim (rb_firstName body)) \<ge> 2 \<and> length (trim (rb_firstName body)) \<le> 50
      \<and> length (trim (rb_lastName body)) \<ge> 2 \<and> length (trim (rb_lastName body)) \<le> 50
      \<and> rb_role body \<in> set [''patient'', ''doctor'']
      \<and> (case rb_phone body of None \<Rightarrow> True | Some ph \<Rightarrow> phoneFormat ph)
      \<and> (case rb_dateOfBirth body of None \<Rightarrow> True | Some d \<Rightarrow> isISO8601 lib d)
      \<and> (if rb_role body = ''doctor'' then notEmpty (rb_specialization body) else True)
      \<and> (if rb_role body = ''doctor'' then notEmpty (rb_licenseNumber body) else True))"

text \<open>The \<open>role\<close> column's \<open>ENUM('patient', 'doctor', 'admin')\<close>.\<close>

definition role_of_string :: "string \<Rightarrow> role option" where
  "role_of_string s =
     (if s = ''patient'' then Some Patient
      else if s = ''doctor'' then Some Doctor
      else if s = ''admin'' then Some Admin
      else None)"

text \<open>The handler of \<open>POST /register\<close> between \<open>beginTransaction\<close> and \<open>commit\<close>.\<close>

definition registerTransaction :: "register_body \<Rightarrow> db \<Rightarrow> error + db \<times> nat" where
  "registerTransaction body store =
     (if [u. u \<leftarrow> users store, email u = rb_email body] \<noteq> [] then Inl ConflictError
      else
        (case role_of_string (rb_role body) of
           None \<Rightarrow> Inl DatabaseError
         | Some r \<Rightarrow>
             let newUserId = next_user_id store;
                 store1 = store\<lparr>users := users store @
                            [\<lparr>u_id = newUserId, email = rb_email body,
                              password_hash = BcryptHash (rb_password body),
                              u_role = r, is_active = True\<rparr>],
                          next_user_id := Suc (next_user_id store)\<rparr>
             in
             if rb_role body = ''doctor'' then
               (if \<not> notEmpty (rb_specialization body) \<or> \<not> notEmpty (rb_licenseNumber body)
                then Inl (AppError 400)
                else if [d. d \<leftarrow> doctors store1,
                            Some (license_number d) = rb_licenseNumber body] \<noteq> []
                then Inl ConflictError
                else Inr (store1\<lparr>doctors := doctors store1 @
                            [\<lparr>d_id = next_doctor_id store1, d_user_id = newUserId,
                              specialization = the (rb_specialization body),
                              license_number = the (rb_licenseNumber body),
                              d_consultation_fee = 0, is_available = True\<rparr>],
                          next_doctor_id := Suc (next_doctor_id store1)\<rparr>,
                          newUserId))
             else Inr (store1, newUserId)))"

record register_response =
  rr_id :: nat
  rr_email :: string
  rr_role :: string
  rr_tokens :: tokens

text \<open>
  The whole route: the validation chain (which normalises the email), the transaction,
  and after its commit the tokens and the stored hash of the refresh token.
\<close>

definition postRegister ::
  "validator_lib \<Rightarrow> env \<Rightarrow> nat \<Rightarrow> register_body \<Rightarrow> db \<Rightarrow> db \<times> (error + register_response)" where
  "postRegister lib e now body0 store =
     (if \<not> registerValidation lib body0 then (store, Inl ValidationFailed)
      else
        let body = body0\<lparr>rb_email := normalizeEmail lib (rb_email body0)\<rparr> in
        (case transaction (registerTransaction body) store of
           (store1, Inl err) \<Rightarrow> (store1, Inl err)
         | (store1, Inr newUserId) \<Rightarrow>
             let ts = generateTokens e newUserId now
             in (insertRefreshToken newUserId (refreshToken ts) (now + sevenDays) store1,
                 Inr \<lparr>rr_id = newUserId, rr_email = rb_email body, rr_role = rb_role body,
                      rr_tokens = ts\<rparr>)))"

section \<open>Availability calendar\<close>








section \<open>The spec's notions and example data\<close>

text \<open>
  The overlap the specification describes for slot display: the candidate's span
  \<open>[candidate, candidate + 30min)\<close> and the booked span \<open>[time, time + duration)\<close>, as
  half-open intervals, have a point in common.
\<close>

definition spansIntersect :: "int \<Rightarrow> booked_slot \<Rightarrow> bool" where
  "spansIntersect candidate b =
     ({candidate ..< candidate + 30 * 60000} \<inter>
      {parseTime (bs_appointment_time b) ..<
         parseTime (bs_appointment_time b) + bs_duration_minutes b * 60000} \<noteq> {})"


text \<open>
  The day of the week of a calendar date, 1970-01-01 being a Thursday. And the primary
  keys of the tables the handlers join: no two rows of a table share an id.
\<close>

definition weekdayOfDate :: "date \<Rightarrow> weekday" where
  "weekdayOfDate day =
     [Thursday, Friday, Saturday, Sunday, Monday, Tuesday, Wednesday] ! (day mod 7)"

definition primaryKeys :: "db \<Rightarrow> bool" where
  "primaryKeys store =
     (distinct (map u_id (users store)) \<and> distinct (map d_id (doctors store))
      \<and> distinct (map a_id (appointments store)))"

text \<open>
  A small store: an admin, two patients, a cardiologist who sees patients on Mondays from
  09:00 to 17:00, and three appointments with her, two on Monday 2024-01-15 (day 19737)
  and a completed one a week before.
\<close>

definition demo_store :: db where
  "demo_store =
     \<lparr>users =
        [\<lparr>u_id = 9, email = ''admin@healthcare.com'', password_hash = BcryptHash ''demo123'',
          u_role = Admin, is_active = True\<rparr>,
         \<lparr>u_id = 2, email = ''patient@demo.com'', password_hash = BcryptHash ''demo123'',
          u_role = Patient, is_active = True\<rparr>,
         \<lparr>u_id = 3, email = ''jane.smith@email.com'', password_hash = BcryptHash ''demo123'',
          u_role = Patient, is_active = True\<rparr>,
         \<lparr>u_id = 4, email = ''doctor@demo.com'', password_hash = BcryptHash ''demo123'',
          u_role = Doctor, is_active = True\<rparr>],
      doctors =
        [\<lparr>d_id = 7, d_user_id = 4, specialization = ''Cardiology'', license_number = ''MD12345'',
          d_consultation_fee = 20000, is_available = True\<rparr>],
      doctor_availability =
        [\<lparr>da_doctor_id = 7, day_of_week = Monday, start_time = hm 9 0, end_time = hm 17 0,
          da_is_active = True\<rparr>],
      appointments =
        [\<lparr>a_id = 21, patient_id = 2, doctor_id = 7, appointment_date = 19737,
          appointment_time = hm 10 0, duration_minutes = 30, a_type = InPerson,
          status = Scheduled, reason_for_visit = ''Regular checkup and blood pressure monitoring'',
          a_notes = None, virtual_meeting_url = None, consultation_fee = 20000,
          a_payment_status = Pending\<rparr>,
         \<lparr>a_id = 22, patient_id = 3, doctor_id = 7, appointment_date = 19737,
          appointment_time = hm 11 0, duration_minutes = 30, a_type = InPerson,
          status = Confirmed, reason_for_visit = ''Follow-up visit after the blood work'',
          a_notes = None, virtual_meeting_url = None, consultation_fee = 20000,
          a_payment_status = Pending\<rparr>,
         \<lparr>a_id = 23, patient_id = 2, doctor_id = 7, appointment_date = 19730,
          appointment_time = hm 11 30, duration_minutes = 30, a_type = InPerson,
          status = Completed, reason_for_visit = ''Annual wellness examination'',
          a_notes = None, virtual_meeting_url = None, consultation_fee = 20000,
          a_payment_status = Paid\<rparr>],
      refresh_tokens = [],
      next_user_id = 10, next_doctor_id = 8, next_appointment_id = 24,
      next_refresh_token_id = 31\<rparr>"


text \<open>
  A server that runs in UTC and one that runs in New York in winter, five hours behind;
  and the clock at noon UTC on Monday 2024-01-15 (day 19737), in seconds.
\<close>

definition utc :: zone where
  "utc = 0"

definition new_york :: zone where
  "new_york = - 300"

definition noon_2024_01_15 :: nat where
  "noon_2024_01_15 = 19737 * 86400 + 43200"

text \<open>A quarter-hour booking at 10:05, and a half-hour booking at 10:00.\<close>

definition contained_booking :: booked_slot where
  "contained_booking = \<lparr>bs_appointment_time = hm 10 5, bs_duration_minutes = 15\<rparr>"

definition booking_10_00 :: booked_slot where
  "booking_10_00 = \<lparr>bs_appointment_time = hm 10 0, bs_duration_minutes = 30\<rparr>"


text \<open>The admin of the small store as \<open>req.user\<close>, and an access token issued to patient 2 at second 1000.\<close>

definition demo_admin :: req_user where
  "demo_admin = \<lparr>req_id = 9, req_email = ''admin@healthcare.com'', req_role = Admin\<rparr>"

definition demo_access :: token where
  "demo_access = accessToken (generateTokens default_env 2 1000)"

text \<open>
  A create request of patient 2 for a virtual visit on Monday 2024-01-22 at 09:30, with a
  stray \<open>patientId\<close> in its body, the row it creates, and an access token of the doctor.
\<close>

definition demo_body :: create_body where
  "demo_body =
     \<lparr>cb_doctorId = 7, cb_appointmentDate = 19744, cb_appointmentTime = hm 9 30,
      cb_durationMinutes = None, cb_type = Virtual,
      cb_reasonForVisit = ''  Chest pain when climbing stairs  '',
      cb_otherKeys = [(''patientId'', 3)]\<rparr>"

definition demo_doctor_access :: token where
  "demo_doctor_access = accessToken (generateTokens default_env 4 1000)"

definition demo_row :: appointment where
  "demo_row =
     \<lparr>a_id = 24, patient_id = 2, doctor_id = 7, appointment_date = 19744,
      appointment_time = hm 9 30, duration_minutes = 30, a_type = Virtual,
      status = Scheduled, reason_for_visit = ''Chest pain when climbing stairs'',
      a_notes = None,
      virtual_meeting_url = Some ''https://meet.healthcare.com/room/k3j9x2m4p1q8'',
      consultation_fee = 20000, a_payment_status = Pending\<rparr>"

text \<open>
  Stand-ins for the library validators, a registration that asks for role admin, and the
  same registration as a patient.
\<close>

definition demo_lib :: validator_lib where
  "demo_lib = \<lparr>isEmail = (\<lambda>s. CHR ''@'' \<in> set s), normalizeEmail = (\<lambda>s. s),
               isISO8601 = (\<lambda>s. length s = 10)\<rparr>"

definition admin_body :: register_body where
  "admin_body =
     \<lparr>rb_email = ''mallory@example.com'', rb_password = ''Sup3rSecret'',
      rb_firstName = ''Mallory'', rb_lastName = ''Root'', rb_role = ''admin'',
      rb_phone = None, rb_dateOfBirth = None, rb_specialization = None,
      rb_licenseNumber = None, rb_yearsOfExperience = None\<rparr>"

definition patient_body :: register_body where
  "patient_body = admin_body\<lparr>rb_role := ''patient''\<rparr>"

text \<open>
  The two patients of the small store as \<open>req.user\<close>; a create request for the slot that
  appointment 21 holds and one for a doctor that does not exist; an update that names no
  field, and one that moves an appointment to 11:00.
\<close>

definition demo_patient2 :: req_user where
  "demo_patient2 = \<lparr>req_id = 2, req_email = ''patient@demo.com'', req_role = Patient\<rparr>"

definition demo_patient3 :: req_user where
  "demo_patient3 = \<lparr>req_id = 3, req_email = ''jane.smith@email.com'', req_role = Patient\<rparr>"

definition taken_slot_body :: create_body where
  "taken_slot_body =
     \<lparr>cb_doctorId = 7, cb_appointmentDate = 19737, cb_appointmentTime = hm 10 0,
      cb_durationMinutes = None, cb_type = InPerson,
      cb_reasonForVisit = ''Persistent cough for two weeks'', cb_otherKeys = []\<rparr>"

definition unknown_doctor_body :: create_body where
  "unknown_doctor_body = taken_slot_body\<lparr>cb_doctorId := 99\<rparr>"

definition no_updates :: update_body where
  "no_updates =
     \<lparr>ub_appointmentDate = None, ub_appointmentTime = None, ub_durationMinutes = None,
      ub_type = None, ub_status = None, ub_reasonForVisit = None, ub_notes = None,
      ub_otherKeys = []\<rparr>"

definition move_to_11 :: update_body where
  "move_to_11 = no_updates\<lparr>ub_appointmentTime := Some (hm 11 0)\<rparr>"

text \<open>
  The small store with one more appointment, confirmed for patient 3 on Monday 2024-01-22
  (day 19744) at 10:00; and an update that moves an appointment to that day and names no
  time.
\<close>

definition busy_store :: db where
  "busy_store =
     demo_store\<lparr>appointments := appointments demo_store @
        [\<lparr>a_id = 24, patient_id = 3, doctor_id = 7, appointment_date = 19744,
          appointment_time = hm 10 0, duration_minutes = 30, a_type = InPerson,
          status = Confirmed, reason_for_visit = ''Review of the stress test results'',
          a_notes = None, virtual_meeting_url = None, consultation_fee = 20000,
          a_payment_status = Pending\<rparr>],
        next_appointment_id := 25\<rparr>"

definition move_to_next_week :: update_body where
  "move_to_next_week = no_updates\<lparr>ub_appointmentDate := Some 19744\<rparr>"


definition demo_admin_access :: token where
  "demo_admin_access = accessToken (generateTokens default_env 9 1000)"




definition add_note :: update_body where
  "add_note = no_updates\<lparr>ub_notes := Some ''Bring the previous ECG''\<rparr>"

text \<open>The same note in a body that also has the key \<open>constructor\<close>.\<close>

definition note_and_constructor :: update_body where
  "note_and_constructor = add_note\<lparr>ub_otherKeys := [''constructor'']\<rparr>"







text \<open>
  A session of patient 2: the refresh token issued by a login at second 1000, the store
  after that login, and the store after the token has been redeemed once, still within
  second 1000.
\<close>

definition demo_tokenA :: token where
  "demo_tokenA = refreshToken (generateTokens default_env 2 1000)"

definition after_login :: db where
  "after_login = fst (login default_env 1000 ''patient@demo.com'' ''demo123'' demo_store)"

definition after_first_refresh :: db where
  "after_first_refresh = fst (refresh default_env 1000 (Some demo_tokenA) after_login)"

section \<open>Queries on the store\<close>

text \<open>
  A query with one table and a condition is a filter; a join on a primary key finds the
  one row that has the key.
\<close>

lemma select_where:
  "concat (map (\<lambda>x. if P x then [f x] else []) xs) = map f (filter P xs)"
  by (induction xs) simp_all

lemma concat_map_empty:
  "(concat (map g ds) = []) = (\<forall>d \<in> set ds. g d = [])"
  by (induction ds) simp_all

lemma concat_map_Nil: "concat (map (\<lambda>x. []) xs) = []"
  by (induction xs) simp_all

lemma join_key_hit:
  assumes "distinct (map key xs)" and "x \<in> set xs" and "key x = k"
  shows "concat (map (\<lambda>y. if k = key y then f y else []) xs) = f x"
  using assms
proof (induction xs)
  case Nil
  then show ?case by simp
next
  case (Cons y ys)
  show ?case
  proof (cases "y = x")
    case True
    from Cons.prems(1) True have "\<forall>z \<in> set ys. key z \<noteq> key x" by (auto simp: image_iff)
    then have "concat (map (\<lambda>y. if k = key y then f y else []) ys) = []"
      using Cons.prems(3) by (induction ys) auto
    with True Cons.prems(3) show ?thesis by simp
  next
    case False
    with Cons.prems(2) have x: "x \<in> set ys" by simp
    with Cons.prems(1) have "key y \<noteq> key x" by force
    with Cons.IH x Cons.prems show ?thesis by simp
  qed
qed

lemma join_empty:
  "(concat (map (\<lambda>d. concat (map (\<lambda>u. if J d u then (if C d u then [f d u] else []) else [])
                                  us)) ds) = []) =
     (\<forall>d \<in> set ds. \<forall>u \<in> set us. \<not> (J d u \<and> C d u))"
  by (simp only: concat_map_empty) auto

lemma availabilityQuery_rows:
  assumes pk: "primaryKeys store"
      and d: "d \<in> set (doctors store)" "d_id d = doctorId" "is_available d"
      and u: "u \<in> set (users store)" "u_id u = d_user_id d" "is_active u"
  shows "availabilityQuery store doctorId wd =
           map (\<lambda>da. (start_time da, end_time da))
             (filter (\<lambda>da. da_doctor_id da = doctorId \<and> day_of_week da = wd \<and> da_is_active da)
                (doctor_availability store))"
proof -
  from pk have dd: "distinct (map d_id (doctors store))" and du: "distinct (map u_id (users store))"
    by (simp_all add: primaryKeys_def)
  have row: "concat (map (\<lambda>d'. if da_doctor_id da = d_id d'
                       then concat (map (\<lambda>u'.
                              if d_user_id d' = u_id u'
                              then if da_doctor_id da = doctorId \<and> day_of_week da = wd
                                      \<and> da_is_active da \<and> is_available d' \<and> is_active u'
                                   then [(start_time da, end_time da)] else []
                              else []) (users store))
                       else []) (doctors store)) =
             (if da_doctor_id da = doctorId \<and> day_of_week da = wd \<and> da_is_active da
              then [(start_time da, end_time da)] else [])" for da
  proof (cases "da_doctor_id da = doctorId")
    case True
    with d(2) have k: "d_id d = da_doctor_id da" by simp
    show ?thesis
      unfolding join_key_hit [of d_id, OF dd d(1) k]
                join_key_hit [of u_id, OF du u(1) u(2)]
      using True d(3) u(3) by simp
  next
    case False
    then show ?thesis by (simp add: concat_map_Nil cong: if_cong)
  qed
  show ?thesis
    unfolding availabilityQuery_def row by (rule select_where)
qed

lemma bookedSlotsQuery_none:
  assumes "\<forall>a \<in> set (appointments store).
             doctor_id a = doctorId \<and> appointment_date a = day \<longrightarrow>
             status a \<noteq> Scheduled \<and> status a \<noteq> Confirmed \<and> status a \<noteq> InProgress"
  shows "bookedSlotsQuery store doctorId day = []"
  using assms by (auto simp: bookedSlotsQuery_def select_where filter_empty_conv)

lemma appointmentWithDoctor_unique:
  assumes pk: "primaryKeys store"
      and a: "a \<in> set (appointments store)" "a_id a = i"
      and d: "d \<in> set (doctors store)" "d_id d = doctor_id a"
  shows "appointmentWithDoctor store i = [(a, d_user_id d)]"
proof -
  from pk have dd: "distinct (map d_id (doctors store))"
    and da: "distinct (map a_id (appointments store))"
    by (simp_all add: primaryKeys_def)
  have same: "a' = a" if "a' \<in> set (appointments store)" and "a_id a' = i" for a'
    using da that a by (simp add: distinct_map inj_on_def)
  have row: "concat (map (\<lambda>d'. if doctor_id a' = d_id d'
                                 then if a_id a' = i then [(a', d_user_id d')] else []
                                 else []) (doctors store)) =
             (if i = a_id a' then [(a, d_user_id d)] else [])"
    if m: "a' \<in> set (appointments store)" for a'
  proof (cases "a_id a' = i")
    case True
    with m have e: "a' = a" by (rule same)
    from d(2) have k: "d_id d = doctor_id a" .
    show ?thesis
      unfolding e join_key_hit [of d_id, OF dd d(1) k] using a(2) by simp
  next
    case False
    then show ?thesis by (auto simp: concat_map_Nil cong: if_cong)
  qed
  have "appointmentWithDoctor store i =
          concat (map (\<lambda>a'. if i = a_id a' then [(a, d_user_id d)] else [])
                    (appointments store))"
    unfolding appointmentWithDoctor_def
    by (rule arg_cong [where f = concat]) (rule map_cong [OF refl], rule row)
  also have "\<dots> = [(a, d_user_id d)]"
    using da a by (rule join_key_hit [of a_id])
  finally show ?thesis .
qed


lemma demo_primaryKeys: "primaryKeys demo_store"
  by (simp add: primaryKeys_def demo_store_def)


section \<open>Slot generation\<close>

text \<open>The loop returns the free candidates, in order, after what was already collected.\<close>

lemma isBooked_Nil: "isBooked t [] = False"
  by (simp add: isBooked_def)

lemma slotLoop_eq:
  "slotLoop c e bs s = s @ map mkSlot (filter (\<lambda>t. \<not> isBooked t bs) (candidateTimes c e))"
proof (induction c e bs s rule: slotLoop.induct)
  case (1 c e bs s)
  show ?case
  proof (cases "c < e")
    case True
    then show ?thesis
      using 1 by (subst slotLoop.simps, subst candidateTimes.simps) (simp add: mkSlot_def)
  next
    case False
    then show ?thesis
      by (subst slotLoop.simps, subst candidateTimes.simps) simp
  qed
qed

lemma generateSlots_eq:
  "generateSlots s e bs =
     map mkSlot (filter (\<lambda>t. \<not> isBooked t bs) (candidateTimes (parseTime s) (parseTime e)))"
  by (simp add: generateSlots_def slotLoop_eq)

lemma candidateTimes_9_17:
  "candidateTimes (parseTime (hm 9 0)) (parseTime (hm 17 0)) =
     [32400000, 34200000, 36000000, 37800000, 39600000, 41400000, 43200000, 45000000,
      46800000, 48600000, 50400000, 52200000, 54000000, 55800000, 57600000, 59400000]"
  by (simp add: candidateTimes.simps parseTime_def hm_def)

lemma timeString_9_17:
  "map timeString
     [32400000, 34200000, 36000000, 37800000, 39600000, 41400000, 43200000, 45000000,
      46800000, 48600000, 50400000, 52200000, 54000000, 55800000, 57600000, 59400000] =
   [''09:00'', ''09:30'', ''10:00'', ''10:30'', ''11:00'', ''11:30'', ''12:00'', ''12:30'',
    ''13:00'', ''13:30'', ''14:00'', ''14:30'', ''15:00'', ''15:30'', ''16:00'', ''16:30'']"
  by (simp add: timeString_def pad2_def)

lemma mkSlot_map: "map mkSlot ts = map (\<lambda>s. \<lparr>slot_time = s, available = True\<rparr>) (map timeString ts)"
  by (simp add: mkSlot_def)

lemma filter_free_Nil: "filter (\<lambda>t. \<not> isBooked t []) ts = ts"
  by (simp add: isBooked_Nil)

lemma generateSlots_9_17:
  "generateSlots (hm 9 0) (hm 17 0) [] =
     map (\<lambda>s. \<lparr>slot_time = s, available = True\<rparr>)
       [''09:00'', ''09:30'', ''10:00'', ''10:30'', ''11:00'', ''11:30'', ''12:00'', ''12:30'',
        ''13:00'', ''13:30'', ''14:00'', ''14:30'', ''15:00'', ''15:30'', ''16:00'', ''16:30'']"
  unfolding generateSlots_eq candidateTimes_9_17 mkSlot_map filter_free_Nil timeString_9_17
  by (rule refl)

text \<open>
  The day of the week the handler reads. The date is parsed as midnight UTC and then read
  in local time: at UTC and east of it that is the day the date names, west of it the
  day before.
\<close>

lemma localDay_dateOnly_east:
  assumes "0 \<le> tz" and "tz < 1440"
  shows "localDay tz (dateOnly day) = int day"
  using assms by (simp add: localDay_def dateOnly_def)

lemma localDay_dateOnly_west:
  assumes "- 1440 \<le> tz" and "tz < 0"
  shows "localDay tz (dateOnly day) = int day - 1"
  using assms by (simp add: localDay_def dateOnly_def)

lemma weekday_table:
  "dayNames ! nat ((int day + 4) mod 7) = weekdayOfDate day"
proof -
  define k where "k = day mod 7"
  have n: "nat ((int day + 4) mod 7) = (k + 4) mod 7"
    unfolding k_def by (simp add: nat_mod_distrib nat_add_distrib) presburger
  have "k < 7" unfolding k_def by simp
  then consider "k = 0" | "k = 1" | "k = 2" | "k = 3" | "k = 4" | "k = 5" | "k = 6"
    by linarith
  then show ?thesis
    unfolding n weekdayOfDate_def k_def [symmetric]
    by cases (simp_all add: dayNames_def)
qed

lemma getDay_east_of_utc:
  assumes "0 \<le> tz" and "tz < 1440"
  shows "dayNames ! getDay tz (dateOnly day) = weekdayOfDate day"
  unfolding getDay_def localDay_dateOnly_east [OF assms] by (rule weekday_table)

lemma getDay_west_of_utc:
  assumes "- 1440 \<le> tz" and "tz < 0" and "0 < day"
  shows "dayNames ! getDay tz (dateOnly day) = weekdayOfDate (day - 1)"
proof -
  from assms(3) have "int day - 1 = int (day - 1)" by simp
  then show ?thesis
    unfolding getDay_def localDay_dateOnly_west [OF assms(1,2)]
    by (simp only: weekday_table)
qed

lemma not_past_east_of_utc:
  assumes "0 \<le> tz" and "localDay tz (dateNow now) \<le> int day"
  shows "\<not> dateOnly day < setHoursZero tz (dateNow now)"
proof -
  have "setHoursZero tz (dateNow now) \<le> localDay tz (dateNow now) * 86400000"
    using assms(1) by (simp add: setHoursZero_def)
  also have "\<dots> \<le> int day * 86400000" using assms(2) by simp
  finally show ?thesis by (simp add: dateOnly_def)
qed

text \<open>
  On a server whose local time is not behind UTC: a doctor whose first active window on
  the weekday of the requested date is 09:00-17:00, with no scheduled, confirmed or
  in-progress appointment on that date, and a date that is not before the server's local
  date, gets exactly the sixteen slots 09:00, 09:30, ..., 16:30, the candidates that
  \<open>generateSlots\<close> visits from the start of the window in steps of thirty minutes while
  the candidate is before the end of the window (\<open>generateSlots_eq\<close>, \<open>candidateTimes\<close>).
\<close>

lemma today_refused_west_of_utc:
  assumes "tz < 0" and "1 \<le> doctorId" and "localDay tz (dateNow now) = int day"
  shows "getAvailability store tz now doctorId (Some day) = Inl BadRequest"
proof -
  have "dateOnly day < setHoursZero tz (dateNow now)"
    using assms(1) by (simp add: dateOnly_def setHoursZero_def assms(3))
  with assms(2) show ?thesis
    by (simp add: getAvailability_def idValidation_def Let_def)
qed

lemma slots_at_or_east_of_utc:
  assumes zone: "0 \<le> tz" "tz < 1440"
      and day: "localDay tz (dateNow now) \<le> int day"
      and pk: "primaryKeys store"
      and d: "d \<in> set (doctors store)" "d_id d = doctorId" "1 \<le> doctorId" "is_available d"
      and u: "u \<in> set (users store)" "u_id u = d_user_id d" "is_active u"
      and w: "filter (\<lambda>da. da_doctor_id da = doctorId \<and> day_of_week da = weekdayOfDate day
                          \<and> da_is_active da) (doctor_availability store) = w # others"
             "start_time w = hm 9 0" "end_time w = hm 17 0"
      and free: "\<forall>a \<in> set (appointments store).
             doctor_id a = doctorId \<and> appointment_date a = day \<longrightarrow>
             status a \<noteq> Scheduled \<and> status a \<noteq> Confirmed \<and> status a \<noteq> InProgress"
  shows "getAvailability store tz now doctorId (Some day) =
           Inr \<lparr>resp_date = day, resp_dayOfWeek = weekdayOfDate day,
                doctorAvailability = Some (hm 9 0, hm 17 0),
                availableSlots = map (\<lambda>s. \<lparr>slot_time = s, available = True\<rparr>)
                  [''09:00'', ''09:30'', ''10:00'', ''10:30'', ''11:00'', ''11:30'', ''12:00'',
                   ''12:30'', ''13:00'', ''13:30'', ''14:00'', ''14:30'', ''15:00'', ''15:30'',
                   ''16:00'', ''16:30''],
                totalSlots = Some 16\<rparr>"
proof -
  have a: "availabilityQuery store doctorId (weekdayOfDate day) =
             (hm 9 0, hm 17 0) # map (\<lambda>da. (start_time da, end_time da)) others"
    unfolding availabilityQuery_rows [OF pk d(1,2,4) u] w(1) using w(2,3) by simp
  have b: "bookedSlotsQuery store doctorId day = []"
    using free by (rule bookedSlotsQuery_none)
  have p: "\<not> dateOnly day < setHoursZero tz (dateNow now)"
    using zone(1) day by (rule not_past_east_of_utc)
  have g: "dayNames ! getDay tz (dateOnly day) = weekdayOfDate day"
    using zone by (rule getDay_east_of_utc)
  from d(3) have i: "idValidation doctorId" by (simp add: idValidation_def)
  show ?thesis
    by (simp add: getAvailability_def i p g a b generateSlots_9_17 Let_def del: map_map)
qed

lemma demo_windows:
  "[(day_of_week da, start_time da, end_time da, da_is_active da).
      da \<leftarrow> doctor_availability demo_store, da_doctor_id da = 7] =
   [(Monday, hm 9 0, hm 17 0, True)]"
  by (simp add: demo_store_def)

lemma demo_no_bookings:
  "[a. a \<leftarrow> appointments demo_store, doctor_id a = 7 \<and> appointment_date a = 19744] = []"
  by (simp add: demo_store_def)

lemma demo_utc_slots:
  "getAvailability demo_store utc noon_2024_01_15 7 (Some 19744) =
           Inr \<lparr>resp_date = 19744, resp_dayOfWeek = Monday,
                doctorAvailability = Some (hm 9 0, hm 17 0),
                availableSlots = map (\<lambda>s. \<lparr>slot_time = s, available = True\<rparr>)
                  [''09:00'', ''09:30'', ''10:00'', ''10:30'', ''11:00'', ''11:30'', ''12:00'',
                   ''12:30'', ''13:00'', ''13:30'', ''14:00'', ''14:30'', ''15:00'', ''15:30'',
                   ''16:00'', ''16:30''],
                totalSlots = Some 16\<rparr>"
proof -
  have m: "weekdayOfDate 19744 = Monday" by (simp add: weekdayOfDate_def)
  have "getAvailability demo_store utc noon_2024_01_15 7 (Some 19744) =
           Inr \<lparr>resp_date = 19744, resp_dayOfWeek = weekdayOfDate 19744,
                doctorAvailability = Some (hm 9 0, hm 17 0),
                availableSlots = map (\<lambda>s. \<lparr>slot_time = s, available = True\<rparr>)
                  [''09:00'', ''09:30'', ''10:00'', ''10:30'', ''11:00'', ''11:30'', ''12:00'',
                   ''12:30'', ''13:00'', ''13:30'', ''14:00'', ''14:30'', ''15:00'', ''15:30'',
                   ''16:00'', ''16:30''],
                totalSlots = Some 16\<rparr>"
  proof (rule slots_at_or_east_of_utc [where d = "hd (doctors demo_store)"
           and u = "users demo_store ! 3" and w = "hd (doctor_availability demo_store)"
           and others = "[]"])
    show "0 \<le> utc" "utc < 1440" by (simp_all add: utc_def)
    show "localDay utc (dateNow noon_2024_01_15) \<le> int 19744"
      by (simp add: localDay_def dateNow_def noon_2024_01_15_def utc_def)
    show "primaryKeys demo_store" by (rule demo_primaryKeys)
    show "hd (doctors demo_store) \<in> set (doctors demo_store)" "d_id (hd (doctors demo_store)) = 7"
      "1 \<le> (7::nat)" "is_available (hd (doctors demo_store))"
      "users demo_store ! 3 \<in> set (users demo_store)"
      "u_id (users demo_store ! 3) = d_user_id (hd (doctors demo_store))"
      "is_active (users demo_store ! 3)"
      by (simp_all add: demo_store_def)
    show "filter (\<lambda>da. da_doctor_id da = 7 \<and> day_of_week da = weekdayOfDate 19744
                          \<and> da_is_active da) (doctor_availability demo_store)
            = [hd (doctor_availability demo_store)]"
      by (simp add: m) (simp add: demo_store_def)
    show "start_time (hd (doctor_availability demo_store)) = hm 9 0"
      "end_time (hd (doctor_availability demo_store)) = hm 17 0"
      by (simp_all add: demo_store_def)
    show "\<forall>a \<in> set (appointments demo_store).
             doctor_id a = 7 \<and> appointment_date a = 19744 \<longrightarrow>
             status a \<noteq> Scheduled \<and> status a \<noteq> Confirmed \<and> status a \<noteq> InProgress"
      by (simp add: demo_store_def)
  qed
  then show ?thesis by (simp only: m)
qed

lemma demo_new_york_day:
  "dayNames ! getDay new_york (dateOnly 19744) = Sunday"
  by (simp add: getDay_def localDay_def dateOnly_def new_york_def dayNames_def)

lemma demo_new_york_not_past:
  "\<not> dateOnly 19744 < setHoursZero new_york (dateNow noon_2024_01_15)"
  by (simp add: dateOnly_def setHoursZero_def localDay_def dateNow_def noon_2024_01_15_def
        new_york_def)

lemma demo_no_sunday_window: "availabilityQuery demo_store 7 Sunday = []"
  by (simp add: availabilityQuery_def demo_store_def)

lemma demo_new_york_slots:
  "getAvailability demo_store new_york noon_2024_01_15 7 (Some 19744) =
     Inr \<lparr>resp_date = 19744, resp_dayOfWeek = Sunday, doctorAvailability = None,
          availableSlots = [], totalSlots = None\<rparr>"
  by (simp add: getAvailability_def idValidation_def demo_new_york_not_past demo_new_york_day
        demo_no_sunday_window Let_def)

text \<open>
  C3, evaluated where it fails. The doctor's one window is Monday 09:00-17:00, 2024-01-22
  (day 19744) is a Monday with no appointment, and the request is made a week before. On a
  server in New York the date is read as midnight UTC, which is Sunday evening there:
  \<open>getDay()\<close> answers Sunday, no window is found, and the answer has no slot. On a server
  whose local time is not behind UTC the answer is the sixteen slots 09:00, 09:30, ...,
  16:30 (\<open>slots_at_or_east_of_utc\<close>, \<open>demo_utc_slots\<close>); behind UTC the day of the week
  is always that of the day before (\<open>getDay_west_of_utc\<close>).
\<close>

theorem C3_west_of_utc:
  "weekdayOfDate 19744 = Monday
   \<and> [(day_of_week da, start_time da, end_time da, da_is_active da).
        da \<leftarrow> doctor_availability demo_store, da_doctor_id da = 7] =
       [(Monday, hm 9 0, hm 17 0, True)]
   \<and> [a. a \<leftarrow> appointments demo_store, doctor_id a = 7 \<and> appointment_date a = 19744] = []
   \<and> localDay new_york (dateNow noon_2024_01_15) = 19737
   \<and> getAvailability demo_store new_york noon_2024_01_15 7 (Some 19744) =
       Inr \<lparr>resp_date = 19744, resp_dayOfWeek = Sunday, doctorAvailability = None,
            availableSlots = [], totalSlots = None\<rparr>
   \<and> getAvailability demo_store utc noon_2024_01_15 7 (Some 19744) =
       Inr \<lparr>resp_date = 19744, resp_dayOfWeek = Monday,
            doctorAvailability = Some (hm 9 0, hm 17 0),
            availableSlots = map (\<lambda>s. \<lparr>slot_time = s, available = True\<rparr>)
              [''09:00'', ''09:30'', ''10:00'', ''10:30'', ''11:00'', ''11:30'', ''12:00'',
               ''12:30'', ''13:00'', ''13:30'', ''14:00'', ''14:30'', ''15:00'', ''15:30'',
               ''16:00'', ''16:30''],
            totalSlots = Some 16\<rparr>"
proof -
  have "weekdayOfDate 19744 = Monday" by (simp add: weekdayOfDate_def)
  moreover have "localDay new_york (dateNow noon_2024_01_15) = 19737"
    by (simp add: localDay_def dateNow_def noon_2024_01_15_def new_york_def)
  ultimately show ?thesis
    by (simp only: demo_windows demo_no_bookings demo_new_york_slots demo_utc_slots simp_thms)
qed


section \<open>Slot exclusion\<close>

text \<open>
  The test of \<open>isBooked\<close> asks whether the candidate's start or the candidate's end lies
  in the booked span. A slot it excludes does overlap a booking, and for bookings of
  thirty minutes or more the test is exactly the overlap of the two spans; a shorter
  booking that lies strictly inside the candidate's span is missed.
\<close>

lemma spansIntersect_iff:
  "spansIntersect c b =
     (c < parseTime (bs_appointment_time b) + bs_duration_minutes b * 60000
      \<and> parseTime (bs_appointment_time b) < c + 30 * 60000
      \<and> 0 < bs_duration_minutes b)"
proof -
  let ?s = "parseTime (bs_appointment_time b)"
  let ?e = "?s + bs_duration_minutes b * 60000"
  have "({c ..< c + 30 * 60000} \<inter> {?s ..< ?e} \<noteq> {}) =
          (\<exists>x. x \<in> {c ..< c + 30 * 60000} \<and> x \<in> {?s ..< ?e})"
    by blast
  also have "\<dots> = (\<exists>x. c \<le> x \<and> x < c + 30 * 60000 \<and> ?s \<le> x \<and> x < ?e)"
    by (simp only: atLeastLessThan_iff conj_assoc)
  also have "\<dots> = (c < ?e \<and> ?s < c + 30 * 60000 \<and> 0 < bs_duration_minutes b)"
  proof
    assume "\<exists>x. c \<le> x \<and> x < c + 30 * 60000 \<and> ?s \<le> x \<and> x < ?e"
    then obtain x where "c \<le> x" "x < c + 30 * 60000" "?s \<le> x" "x < ?e" by blast
    then show "c < ?e \<and> ?s < c + 30 * 60000 \<and> 0 < bs_duration_minutes b" by simp
  next
    assume h: "c < ?e \<and> ?s < c + 30 * 60000 \<and> 0 < bs_duration_minutes b"
    show "\<exists>x. c \<le> x \<and> x < c + 30 * 60000 \<and> ?s \<le> x \<and> x < ?e"
    proof (cases "c \<le> ?s")
      case True
      with h have "c \<le> ?s \<and> ?s < c + 30 * 60000 \<and> ?s \<le> ?s \<and> ?s < ?e" by simp
      then show ?thesis by (rule exI)
    next
      case False
      with h have "c \<le> c \<and> c < c + 30 * 60000 \<and> ?s \<le> c \<and> c < ?e" by simp
      then show ?thesis by (rule exI)
    qed
  qed
  finally show ?thesis unfolding spansIntersect_def .
qed

lemma isBooked_iff:
  "isBooked c bs =
     (\<exists>slot \<in> set bs.
        (parseTime (bs_appointment_time slot) \<le> c
           \<and> c < parseTime (bs_appointment_time slot) + bs_duration_minutes slot * 60000)
        \<or> (parseTime (bs_appointment_time slot) < c + 30 * 60000
           \<and> c + 30 * 60000
               \<le> parseTime (bs_appointment_time slot) + bs_duration_minutes slot * 60000))"
  by (simp add: isBooked_def list_ex_iff Let_def)

lemma slot_test_imp_intersect:
  fixes c s d :: int
  assumes "(s \<le> c \<and> c < s + d * 60000) \<or> (s < c + 30 * 60000 \<and> c + 30 * 60000 \<le> s + d * 60000)"
  shows "c < s + d * 60000 \<and> s < c + 30 * 60000 \<and> 0 < d"
  using assms by auto

lemma intersect_imp_slot_test:
  fixes c s d :: int
  assumes "c < s + d * 60000 \<and> s < c + 30 * 60000" and "30 \<le> d"
  shows "(s \<le> c \<and> c < s + d * 60000) \<or> (s < c + 30 * 60000 \<and> c + 30 * 60000 \<le> s + d * 60000)"
  using assms by auto

lemma isBooked_imp_spansIntersect:
  "isBooked c bs \<Longrightarrow> \<exists>b \<in> set bs. spansIntersect c b"
  unfolding isBooked_iff spansIntersect_iff
  using slot_test_imp_intersect by blast

lemma isBooked_iff_long_bookings:
  assumes "\<forall>b \<in> set bs. 30 \<le> bs_duration_minutes b"
  shows "isBooked c bs = (\<exists>b \<in> set bs. spansIntersect c b)"
proof
  assume "isBooked c bs"
  then show "\<exists>b \<in> set bs. spansIntersect c b" by (rule isBooked_imp_spansIntersect)
next
  assume "\<exists>b \<in> set bs. spansIntersect c b"
  then obtain b where b: "b \<in> set bs" "spansIntersect c b" by blast
  from b(1) assms have "30 \<le> bs_duration_minutes b" by blast
  with b(2) have "(parseTime (bs_appointment_time b) \<le> c
           \<and> c < parseTime (bs_appointment_time b) + bs_duration_minutes b * 60000)
        \<or> (parseTime (bs_appointment_time b) < c + 30 * 60000
           \<and> c + 30 * 60000
               \<le> parseTime (bs_appointment_time b) + bs_duration_minutes b * 60000)"
    unfolding spansIntersect_iff by (intro intersect_imp_slot_test) simp_all
  with b(1) show "isBooked c bs" unfolding isBooked_iff by blast
qed

lemma isBooked_contained:
  "isBooked t [contained_booking] = (36300000 \<le> t \<and> t < 37200000 \<or> 34500000 < t \<and> t \<le> 35400000)"
  by (auto simp add: isBooked_def contained_booking_def hm_def parseTime_def)

lemma generateSlots_contained:
  "generateSlots (hm 9 0) (hm 17 0) [contained_booking] =
     map (\<lambda>s. \<lparr>slot_time = s, available = True\<rparr>)
       [''09:00'', ''09:30'', ''10:00'', ''10:30'', ''11:00'', ''11:30'', ''12:00'', ''12:30'',
        ''13:00'', ''13:30'', ''14:00'', ''14:30'', ''15:00'', ''15:30'', ''16:00'', ''16:30'']"
proof -
  have "filter (\<lambda>t. \<not> isBooked t [contained_booking])
     [32400000, 34200000, 36000000, 37800000, 39600000, 41400000, 43200000, 45000000,
      46800000, 48600000, 50400000, 52200000, 54000000, 55800000, 57600000, 59400000] =
     [32400000, 34200000, 36000000, 37800000, 39600000, 41400000, 43200000, 45000000,
      46800000, 48600000, 50400000, 52200000, 54000000, 55800000, 57600000, 59400000]"
    by (simp add: isBooked_contained)
  then show ?thesis
    by (simp only: generateSlots_eq candidateTimes_9_17 mkSlot_map timeString_9_17)
qed


text \<open>
  C4, evaluated where it fails. With a booking at 10:05 for 15 minutes, the span of the
  10:00 candidate, \<open>[10:00, 10:30)\<close>, intersects the booked span \<open>[10:05, 10:20)\<close>, yet
  \<open>isBooked\<close> is false for it and the 10:00 slot is among the available slots.
\<close>

theorem C4_contained_booking:
  "spansIntersect (parseTime (hm 10 0)) contained_booking
   \<and> \<not> isBooked (parseTime (hm 10 0)) [contained_booking]
   \<and> \<lparr>slot_time = ''10:00'', available = True\<rparr>
        \<in> set (generateSlots (hm 9 0) (hm 17 0) [contained_booking])"
proof -
  have "spansIntersect (parseTime (hm 10 0)) contained_booking"
    by (simp add: spansIntersect_iff contained_booking_def hm_def parseTime_def)
  moreover have "\<not> isBooked (parseTime (hm 10 0)) [contained_booking]"
    by (simp add: isBooked_contained hm_def parseTime_def)
  moreover have "\<lparr>slot_time = ''10:00'', available = True\<rparr>
        \<in> set (generateSlots (hm 9 0) (hm 17 0) [contained_booking])"
    unfolding generateSlots_contained by simp
  ultimately show ?thesis by blast
qed


text \<open>
  The particular case of C4 holds: a booking at 10:00 for 30 minutes removes the 10:00
  slot and no other; 09:30 and 10:30 stay.
\<close>

lemma isBooked_10_00:
  "isBooked t [booking_10_00] = (36000000 \<le> t \<and> t < 37800000 \<or> 34200000 < t \<and> t \<le> 36000000)"
  by (auto simp add: isBooked_def booking_10_00_def hm_def parseTime_def)

lemma generateSlots_booking_10_00:
  "generateSlots (hm 9 0) (hm 17 0) [booking_10_00] =
     map (\<lambda>s. \<lparr>slot_time = s, available = True\<rparr>)
       [''09:00'', ''09:30'', ''10:30'', ''11:00'', ''11:30'', ''12:00'', ''12:30'',
        ''13:00'', ''13:30'', ''14:00'', ''14:30'', ''15:00'', ''15:30'', ''16:00'', ''16:30'']"
proof -
  have "filter (\<lambda>t. \<not> isBooked t [booking_10_00])
     [32400000, 34200000, 36000000, 37800000, 39600000, 41400000, 43200000, 45000000,
      46800000, 48600000, 50400000, 52200000, 54000000, 55800000, 57600000, 59400000] =
     [32400000, 34200000, 37800000, 39600000, 41400000, 43200000, 45000000,
      46800000, 48600000, 50400000, 52200000, 54000000, 55800000, 57600000, 59400000]"
    by (simp add: isBooked_10_00)
  moreover have "map timeString [32400000, 34200000, 37800000, 39600000, 41400000, 43200000, 45000000,
      46800000, 48600000, 50400000, 52200000, 54000000, 55800000, 57600000, 59400000] =
     [''09:00'', ''09:30'', ''10:30'', ''11:00'', ''11:30'', ''12:00'', ''12:30'',
        ''13:00'', ''13:30'', ''14:00'', ''14:30'', ''15:00'', ''15:30'', ''16:00'', ''16:30'']"
    using timeString_9_17 by simp
  ultimately show ?thesis
    by (simp only: generateSlots_eq candidateTimes_9_17 mkSlot_map)
qed

section \<open>Authentication of a deactivated account\<close>

lemma no_active_rows:
  "(\<forall>u \<in> set us. u_id u = uid \<longrightarrow> \<not> is_active u) \<Longrightarrow>
     [u. u \<leftarrow> us, u_id u = uid \<and> is_active u] = []"
  by (induction us) auto

lemma authenticate_inactive:
  assumes "jwt_verify t JWT_SECRET now = Inr decoded"
      and "\<forall>u \<in> set (users store). u_id u = userId decoded \<longrightarrow> \<not> is_active u"
  shows "authenticateToken store now (Some t) = Inl InvalidToken"
  using assms by (simp add: authenticateToken_def no_active_rows)

lemma updateUserStatus_users:
  "snd (updateUserStatus admin uid False store) = Inr () \<Longrightarrow>
     users (fst (updateUserStatus admin uid False store)) =
       map (\<lambda>u. if u_id u = uid then u\<lparr>is_active := False\<rparr> else u) (users store)"
  by (simp add: updateUserStatus_def Let_def select_where split: if_splits)

lemma map_deactivate:
  "u \<in> set (map (\<lambda>u. if u_id u = uid then u\<lparr>is_active := False\<rparr> else u) us) \<Longrightarrow>
     u_id u = uid \<Longrightarrow> \<not> is_active u"
proof (induction us)
  case Nil
  then show ?case by simp
next
  case (Cons a us)
  show ?case
  proof (cases "u = (if u_id a = uid then a\<lparr>is_active := False\<rparr> else a)")
    case True
    with Cons.prems(2) show ?thesis by (cases "u_id a = uid") simp_all
  next
    case False
    with Cons show ?thesis by simp
  qed
qed


lemma updateUserStatus_deactivated:
  assumes "updateUserStatus admin uid False store = (store', Inr ())"
  shows "\<forall>u \<in> set (users store'). u_id u = uid \<longrightarrow> \<not> is_active u"
proof (intro ballI impI)
  fix u
  assume a: "u \<in> set (users store')" and b: "u_id u = uid"
  have ok: "snd (updateUserStatus admin uid False store) = Inr ()"
    by (simp only: assms snd_conv)
  have st: "fst (updateUserStatus admin uid False store) = store'"
    by (simp only: assms fst_conv)
  have eq: "users store' =
      map (\<lambda>u. if u_id u = uid then u\<lparr>is_active := False\<rparr> else u) (users store)"
    using updateUserStatus_users [OF ok] by (simp only: st)
  from a have "u \<in> set (map (\<lambda>u. if u_id u = uid then u\<lparr>is_active := False\<rparr> else u)
                          (users store))"
    by (simp only: eq)
  then show "\<not> is_active u" using b by (rule map_deactivate)
qed

text \<open>
  C5. An access token that still verifies (signature and expiry) for account X, presented
  after X has been deactivated through the admin's status update: \<open>authenticateToken\<close>
  answers with the 401 failure \<open>INVALID_TOKEN\<close>, because it reads the account again and
  keeps only an active row.
\<close>

theorem C5_deactivation_immediate:
  assumes "jwt_verify t JWT_SECRET now = Inr decoded"
      and "updateUserStatus admin (userId decoded) False store = (store', Inr ())"
  shows "authenticateToken store' now (Some t) = Inl InvalidToken
         \<and> http_status InvalidToken = 401"
  using assms authenticate_inactive updateUserStatus_deactivated by auto

lemma demo_access_valid:
  "jwt_verify demo_access JWT_SECRET 2000 = Inr \<lparr>userId = 2, iat = 1000, exp = 87400\<rparr>"
  by (simp add: demo_access_def generateTokens_def jwt_sign_def default_env_def)

lemma demo_deactivate:
  "updateUserStatus demo_admin 2 False demo_store =
     (fst (updateUserStatus demo_admin 2 False demo_store), Inr ())"
  by (simp add: updateUserStatus_def demo_admin_def demo_store_def Let_def)

lemma demo_authenticate_before:
  "authenticateToken demo_store 2000 (Some demo_access) =
     Inr \<lparr>req_id = 2, req_email = ''patient@demo.com'', req_role = Patient\<rparr>"
  by (simp add: authenticateToken_def demo_access_valid) (simp add: demo_store_def)

theorem C5_witness:
  "authenticateToken demo_store 2000 (Some demo_access) =
     Inr \<lparr>req_id = 2, req_email = ''patient@demo.com'', req_role = Patient\<rparr>
   \<and> authenticateToken (fst (updateUserStatus demo_admin 2 False demo_store)) 2000
        (Some demo_access) = Inl InvalidToken
   \<and> http_status InvalidToken = 401"
  using C5_deactivation_immediate [OF demo_access_valid, of demo_admin demo_store
          "fst (updateUserStatus demo_admin 2 False demo_store)"]
        demo_deactivate demo_authenticate_before
  by simp

section \<open>Who an appointment is created for\<close>

lemma createAppointment_created:
  assumes "createAppointment usr body room store = Inr r"
  shows "patient_id (snd r) = req_id usr
         \<and> appointments (fst r) = appointments store @ [snd r]"
  using assms
  by (simp add: createAppointment_def Let_def split: list.splits if_splits) auto

lemma authorizeRoles_patient:
  "authorizeRoles [Patient] (Some usr) = (if req_role usr = Patient then None else Some InsufficientPermissions)"
  by (simp add: authorizeRoles_def)

lemma createAppointment_otherKeys:
  "createAppointment usr (body\<lparr>cb_otherKeys := ks\<rparr>) room store =
     createAppointment usr body room store"
  by (simp add: createAppointment_def Let_def split: list.split)

text \<open>
  C9. Whenever \<open>POST /appointments\<close> creates an appointment, the caller was authenticated
  with role patient, the new row is appended to the table, and its \<open>patient_id\<close> is the
  caller's account id. A caller with any other role is refused with
  \<open>INSUFFICIENT_PERMISSIONS\<close> and the store is unchanged. Keys of the body that the
  handler does not read, a \<open>patientId\<close> among them, have no effect on the outcome.
\<close>

theorem C9_patient_is_caller:
  "(postAppointments store tz now authHeader body room = (store', Inr appt) \<longrightarrow>
      (\<exists>usr. authenticateToken store now authHeader = Inr usr \<and> req_role usr = Patient
             \<and> patient_id appt = req_id usr
             \<and> appointments store' = appointments store @ [appt]))
   \<and> (authenticateToken store now authHeader = Inr caller \<and> req_role caller \<noteq> Patient \<longrightarrow>
        postAppointments store tz now authHeader body room =
          (store, Inl InsufficientPermissions))
   \<and> postAppointments store tz now authHeader (body\<lparr>cb_otherKeys := ks\<rparr>) room =
       postAppointments store tz now authHeader body room"
proof (intro conjI impI)
  assume ok: "postAppointments store tz now authHeader body room = (store', Inr appt)"
  then obtain usr where au: "authenticateToken store now authHeader = Inr usr"
    by (cases "authenticateToken store now authHeader") (simp_all add: postAppointments_def)
  from ok au have pat: "req_role usr = Patient"
    by (simp add: postAppointments_def authorizeRoles_patient split: if_splits)
  let ?b = "body\<lparr>cb_reasonForVisit := trim (cb_reasonForVisit body)\<rparr>"
  from ok au pat have tr: "transaction (createAppointment usr ?b room) store = (store', Inr appt)"
    by (simp add: postAppointments_def authorizeRoles_patient split: if_splits)
  then obtain r where cr: "createAppointment usr ?b room store = Inr r"
    and r: "r = (store', appt)"
    by (cases "createAppointment usr ?b room store") (auto simp: transaction_def)
  from createAppointment_created [OF cr] r
  have "patient_id appt = req_id usr \<and> appointments store' = appointments store @ [appt]"
    by simp
  with au pat
  show "\<exists>usr. authenticateToken store now authHeader = Inr usr \<and> req_role usr = Patient
             \<and> patient_id appt = req_id usr
             \<and> appointments store' = appointments store @ [appt]"
    by blast
next
  assume "authenticateToken store now authHeader = Inr caller \<and> req_role caller \<noteq> Patient"
  then show "postAppointments store tz now authHeader body room =
          (store, Inl InsufficientPermissions)"
    by (simp add: postAppointments_def authorizeRoles_patient)
next
  show "postAppointments store tz now authHeader (body\<lparr>cb_otherKeys := ks\<rparr>) room =
       postAppointments store tz now authHeader body room"
  proof -
    have "createAppointmentValidation tz now (body\<lparr>cb_otherKeys := ks\<rparr>) =
          createAppointmentValidation tz now body"
      by (simp add: createAppointmentValidation_def)
    moreover have "\<And>usr. createAppointment usr
        (body\<lparr>cb_otherKeys := ks, cb_reasonForVisit := trim (cb_reasonForVisit body)\<rparr>) room =
       createAppointment usr (body\<lparr>cb_reasonForVisit := trim (cb_reasonForVisit body)\<rparr>) room"
      by (rule ext) (simp add: createAppointment_def Let_def split: list.split)
    ultimately show ?thesis
      by (simp add: postAppointments_def split: sum.split option.split)
  qed
qed

lemma demo_post:
  "snd (postAppointments demo_store utc 2000 (Some demo_access) demo_body ''k3j9x2m4p1q8'')
     = Inr demo_row"
proof -
  have v: "createAppointmentValidation utc 2000 demo_body"
    by (simp add: createAppointmentValidation_def demo_body_def hm_def trim_def isSpace_def
          dateOnly_def setHoursZero_def localDay_def dateNow_def utc_def)
  have t: "trim (cb_reasonForVisit demo_body) = ''Chest pain when climbing stairs''"
    by (simp add: demo_body_def trim_def isSpace_def)
  have d: "availableDoctors demo_store 7 = [hd (doctors demo_store)]"
    by (simp add: availableDoctors_def demo_store_def)
  have c: "conflicts demo_store 7 19744 (hm 9 30) None = []"
    by (simp add: conflicts_def demo_store_def)
  have u: "\<not> unique_doctor_datetime_taken demo_store 7 19744 (hm 9 30) None"
    by (simp add: unique_doctor_datetime_taken_def demo_store_def)
  have b: "cb_doctorId demo_body = 7" "cb_appointmentDate demo_body = 19744"
    "cb_appointmentTime demo_body = hm 9 30" "cb_durationMinutes demo_body = None"
    "cb_type demo_body = Virtual"
    by (simp_all add: demo_body_def)
  have s: "next_appointment_id demo_store = 24" "d_consultation_fee (hd (doctors demo_store)) = 20000"
    by (simp_all add: demo_store_def)
  show ?thesis
    by (simp add: postAppointments_def demo_authenticate_before authorizeRoles_patient v t
          transaction_def createAppointment_def d c u b s Let_def demo_row_def)
qed

lemma demo_doctor_authenticate:
  "authenticateToken demo_store 2000 (Some demo_doctor_access) =
     Inr \<lparr>req_id = 4, req_email = ''doctor@demo.com'', req_role = Doctor\<rparr>"
  by (simp add: authenticateToken_def demo_doctor_access_def generateTokens_def jwt_sign_def
        default_env_def select_where)
     (simp add: demo_store_def)


lemma demo_admin_authenticate:
  "authenticateToken demo_store 2000 (Some demo_admin_access) = Inr demo_admin"
  by (simp add: authenticateToken_def demo_admin_access_def generateTokens_def jwt_sign_def
        default_env_def select_where demo_admin_def)
     (simp add: demo_store_def)


theorem C9_witness:
  "snd (postAppointments demo_store utc 2000 (Some demo_access) demo_body ''k3j9x2m4p1q8'')
     = Inr demo_row
   \<and> patient_id demo_row = 2
   \<and> postAppointments demo_store utc 2000 (Some demo_doctor_access) demo_body
         ''k3j9x2m4p1q8'' = (demo_store, Inl InsufficientPermissions)"
proof -
  have "postAppointments demo_store utc 2000 (Some demo_access) demo_body ''k3j9x2m4p1q8'' =
     (fst (postAppointments demo_store utc 2000 (Some demo_access) demo_body
            ''k3j9x2m4p1q8''), Inr demo_row)"
    by (simp add: prod_eq_iff demo_post)
  with C9_patient_is_caller [where store = demo_store and tz = utc and now = 2000
          and authHeader = "Some demo_access" and body = demo_body
          and room = "''k3j9x2m4p1q8''" and appt = demo_row]
  have "patient_id demo_row = 2"
    by (simp add: demo_authenticate_before)
  moreover
  from C9_patient_is_caller [where store = demo_store and tz = utc and now = 2000
          and authHeader = "Some demo_doctor_access" and body = demo_body
          and room = "''k3j9x2m4p1q8''"
          and caller = "\<lparr>req_id = 4, req_email = ''doctor@demo.com'', req_role = Doctor\<rparr>"]
  have "postAppointments demo_store utc 2000 (Some demo_doctor_access) demo_body
         ''k3j9x2m4p1q8'' = (demo_store, Inl InsufficientPermissions)"
    by (simp add: demo_doctor_authenticate)
  ultimately show ?thesis by (simp add: demo_post)
qed

section \<open>Roles an account can register with\<close>

lemma users_insertRefreshToken:
  "users (insertRefreshToken uid t expiresAt store) = users store"
  by (simp add: insertRefreshToken_def)

lemma registerTransaction_users:
  assumes "registerTransaction body store = Inr r"
  shows "\<exists>usr. users (fst r) = users store @ [usr]
               \<and> role_of_string (rb_role body) = Some (u_role usr)"
proof -
  from assms obtain ro where ro: "role_of_string (rb_role body) = Some ro"
    by (cases "role_of_string (rb_role body)")
       (simp_all add: registerTransaction_def split: if_splits)
  let ?usr = "\<lparr>u_id = next_user_id store, email = rb_email body,
                 password_hash = BcryptHash (rb_password body),
                 u_role = ro, is_active = True\<rparr>"
  from assms ro have "users (fst r) = users store @ [?usr]"
    by (simp add: registerTransaction_def Let_def split: if_splits) auto
  with ro have "users (fst r) = users store @ [?usr]
               \<and> role_of_string (rb_role body) = Some (u_role ?usr)" by simp
  then show ?thesis by (rule exI)
qed

lemma role_of_string_validated:
  "registerValidation lib body \<Longrightarrow> role_of_string (rb_role body) = Some ro \<Longrightarrow>
     ro = Patient \<or> ro = Doctor"
  by (auto simp: registerValidation_def role_of_string_def split: if_splits)

lemma registerValidation_normalized:
  "registerValidation lib body \<Longrightarrow> rb_role body = ''patient'' \<or> rb_role body = ''doctor''"
  by (simp add: registerValidation_def)

text \<open>
  C10. A register request whose role is neither \<open>patient\<close> nor \<open>doctor\<close> (role
  \<open>admin\<close> in particular) is answered with the validation failure and the store is
  unchanged; and whatever the request, every account in the store after \<open>POST /register\<close>
  either was there before or has role patient or doctor.
\<close>

theorem C10_register_roles:
  "(rb_role body \<noteq> ''patient'' \<and> rb_role body \<noteq> ''doctor'' \<longrightarrow>
      postRegister lib e now body store = (store, Inl ValidationFailed))
   \<and> (\<forall>u \<in> set (users (fst (postRegister lib e now body store))).
        u \<in> set (users store) \<or> u_role u = Patient \<or> u_role u = Doctor)"
proof (intro conjI impI ballI)
  assume "rb_role body \<noteq> ''patient'' \<and> rb_role body \<noteq> ''doctor''"
  then have "\<not> registerValidation lib body"
    using registerValidation_normalized by blast
  then show "postRegister lib e now body store = (store, Inl ValidationFailed)"
    by (simp add: postRegister_def)
next
  fix u
  assume u: "u \<in> set (users (fst (postRegister lib e now body store)))"
  let ?b = "body\<lparr>rb_email := normalizeEmail lib (rb_email body)\<rparr>"
  show "u \<in> set (users store) \<or> u_role u = Patient \<or> u_role u = Doctor"
  proof (cases "registerValidation lib body")
    case False
    with u show ?thesis by (simp add: postRegister_def)
  next
    case True
    show ?thesis
    proof (cases "registerTransaction ?b store")
      case (Inl err)
      with True u show ?thesis
        by (simp add: postRegister_def transaction_def Let_def)
    next
      case (Inr r)
      then obtain usr where usr: "users (fst r) = users store @ [usr]"
        and ro: "role_of_string (rb_role ?b) = Some (u_role usr)"
        using registerTransaction_users by blast
      from True ro have "u_role usr = Patient \<or> u_role usr = Doctor"
        using role_of_string_validated [of lib body "u_role usr"] by simp
      moreover from True Inr u have "u \<in> set (users (fst r))"
        by (cases r) (simp add: postRegister_def transaction_def Let_def users_insertRefreshToken)
      ultimately show ?thesis using usr by auto
    qed
  qed
qed


lemma admin_body_rejected_role: "rb_role admin_body \<noteq> ''patient'' \<and> rb_role admin_body \<noteq> ''doctor''"
  by (simp add: admin_body_def)

lemma patient_body_valid: "registerValidation demo_lib patient_body"
  by (simp add: registerValidation_def patient_body_def admin_body_def demo_lib_def trim_def
        isSpace_def isLower_def isUpper_def isDigit_def)

lemma patient_body_users:
  "map u_role (users (fst (postRegister demo_lib default_env 1000 patient_body demo_store))) =
     [Admin, Patient, Patient, Doctor, Patient]"
proof -
  have e: "rb_email patient_body = ''mallory@example.com''" "rb_role patient_body = ''patient''"
    by (simp_all add: patient_body_def admin_body_def)
  have n: "normalizeEmail demo_lib = (\<lambda>s. s)" by (simp add: demo_lib_def)
  have q: "filter (\<lambda>u. email u = ''mallory@example.com'') (users demo_store) = []"
    by (simp add: demo_store_def)
  have m: "map u_role (users demo_store) = [Admin, Patient, Patient, Doctor]"
    by (simp add: demo_store_def)
  show ?thesis
    by (simp add: postRegister_def patient_body_valid transaction_def registerTransaction_def
          select_where e n q m role_of_string_def Let_def users_insertRefreshToken)
qed

theorem C10_witness:
  "postRegister demo_lib default_env 1000 admin_body demo_store =
     (demo_store, Inl ValidationFailed)
   \<and> map u_role (users (fst (postRegister demo_lib default_env 1000 patient_body demo_store)))
       = [Admin, Patient, Patient, Doctor, Patient]"
  using C10_register_roles [of admin_body demo_lib default_env 1000 demo_store]
        admin_body_rejected_role patient_body_users
  by simp

section \<open>The conflict check of create and update\<close>

text \<open>
  The two queries of the create handler as conditions on the rows of the store, and the
  update handler reduced to what it does once the caller has passed its permission checks.
\<close>

lemma availableDoctors_empty:
  "(availableDoctors store doctorId = []) =
     (\<not> (\<exists>d \<in> set (doctors store). d_id d = doctorId \<and> is_available d
            \<and> (\<exists>u \<in> set (users store). u_id u = d_user_id d \<and> is_active u)))"
proof -
  have "(availableDoctors store doctorId = []) =
     (\<forall>d \<in> set (doctors store). \<forall>u \<in> set (users store).
        \<not> (d_user_id d = u_id u \<and> (d_id d = doctorId \<and> is_available d \<and> is_active u)))"
    unfolding availableDoctors_def by (rule join_empty)
  also have "\<dots> = (\<not> (\<exists>d \<in> set (doctors store). d_id d = doctorId \<and> is_available d
            \<and> (\<exists>u \<in> set (users store). u_id u = d_user_id d \<and> is_active u)))"
    by (auto simp: eq_commute [of "d_user_id _" "u_id _"])
  finally show ?thesis .
qed

lemma conflicts_empty:
  "(conflicts store doctorId day t exclude = []) =
     (\<not> (\<exists>a \<in> set (appointments store).
            doctor_id a = doctorId \<and> appointment_date a = day \<and> appointment_time a = t
            \<and> (status a = Scheduled \<or> status a = Confirmed)
            \<and> (case exclude of None \<Rightarrow> True | Some i \<Rightarrow> a_id a \<noteq> i)))"
  by (simp add: conflicts_def select_where filter_empty_conv)

lemma createAppointment_conflict:
  assumes "availableDoctors store (cb_doctorId body) \<noteq> []"
  shows "(createAppointment usr body room store = Inl ConflictError) =
         (conflicts store (cb_doctorId body) (cb_appointmentDate body)
            (cb_appointmentTime body) None \<noteq> [])"
  using assms
  by (cases "availableDoctors store (cb_doctorId body)")
     (simp_all add: createAppointment_def Let_def)

lemma createAppointment_no_doctor:
  assumes "availableDoctors store (cb_doctorId body) = []"
  shows "createAppointment usr body room store = Inl NotFoundError"
  using assms by (simp add: createAppointment_def)


lemma updateAppointment_unfold:
  assumes "appointmentWithDoctor store appointmentId = (a, duid) # others"
  shows "updateAppointment usr appointmentId updates store =
     (if \<not> canUpdate usr a duid then Inl ForbiddenError
      else if req_role usr = Patient \<and> status a \<noteq> Scheduled then Inl ForbiddenError
      else if req_role usr = Patient
              \<and> list_ex (\<lambda>key. key \<notin> set allowedFields) (keys updates)
      then Inl ForbiddenError
      else if (ub_appointmentDate updates \<noteq> None \<or> ub_appointmentTime updates \<noteq> None)
              \<and> conflicts store (doctor_id a) (newDate updates a) (newTime updates a)
                    (Some appointmentId) \<noteq> []
      then Inl ConflictError
      else if updateFields updates = [] then Inl ReferenceError
      else if Inherited \<in> set (updateFields updates) then Inl DatabaseError
      else if (newDate updates a \<noteq> appointment_date a \<or> newTime updates a \<noteq> appointment_time a)
              \<and> unique_doctor_datetime_taken store (doctor_id a) (newDate updates a)
                    (newTime updates a) (Some appointmentId)
      then Inl DuplicateEntry
      else Inr (store\<lparr>appointments :=
                        map (\<lambda>r. if a_id r = appointmentId then applyUpdates updates r else r)
                          (appointments store)\<rparr>,
                applyUpdates updates a))"
  by (simp add: updateAppointment_def assms)

lemma disallowed_keys:
  "list_ex (\<lambda>key. key \<notin> set allowedFields) (keys updates) =
     (\<not> set (keys updates) \<subseteq> {''appointmentDate'', ''appointmentTime'', ''reasonForVisit''})"
  by (auto simp: list_ex_iff allowedFields_def)

lemma updateAppointment_permitted:
  assumes found: "appointmentWithDoctor store appointmentId = (a, duid) # others"
      and perm: "req_role usr = Admin
                 \<or> req_role usr = Doctor \<and> duid = req_id usr
                 \<or> req_role usr = Patient \<and> patient_id a = req_id usr \<and> status a = Scheduled
                     \<and> set (keys updates)
                           \<subseteq> {''appointmentDate'', ''appointmentTime'', ''reasonForVisit''}"
  shows "updateAppointment usr appointmentId updates store =
     (if (ub_appointmentDate updates \<noteq> None \<or> ub_appointmentTime updates \<noteq> None)
              \<and> conflicts store (doctor_id a) (newDate updates a) (newTime updates a)
                    (Some appointmentId) \<noteq> []
      then Inl ConflictError
      else if updateFields updates = [] then Inl ReferenceError
      else if Inherited \<in> set (updateFields updates) then Inl DatabaseError
      else if (newDate updates a \<noteq> appointment_date a \<or> newTime updates a \<noteq> appointment_time a)
              \<and> unique_doctor_datetime_taken store (doctor_id a) (newDate updates a)
                    (newTime updates a) (Some appointmentId)
      then Inl DuplicateEntry
      else Inr (store\<lparr>appointments :=
                        map (\<lambda>r. if a_id r = appointmentId then applyUpdates updates r else r)
                          (appointments store)\<rparr>,
                applyUpdates updates a))"
proof -
  from perm have c: "canUpdate usr a duid"
    and s: "\<not> (req_role usr = Patient \<and> status a \<noteq> Scheduled)"
    and k: "\<not> (req_role usr = Patient
                \<and> list_ex (\<lambda>key. key \<notin> set allowedFields) (keys updates))"
    unfolding disallowed_keys canUpdate_def by auto
  show ?thesis
    unfolding updateAppointment_unfold [OF found] using c s k by (simp only: simp_thms if_False)
qed

lemma updateAppointment_conflict:
  assumes found: "appointmentWithDoctor store appointmentId = (a, duid) # others"
      and perm: "req_role usr = Admin
                 \<or> req_role usr = Doctor \<and> duid = req_id usr
                 \<or> req_role usr = Patient \<and> patient_id a = req_id usr \<and> status a = Scheduled
                     \<and> set (keys updates)
                           \<subseteq> {''appointmentDate'', ''appointmentTime'', ''reasonForVisit''}"
  shows "(updateAppointment usr appointmentId updates store = Inl ConflictError) =
         ((ub_appointmentDate updates \<noteq> None \<or> ub_appointmentTime updates \<noteq> None)
          \<and> conflicts store (doctor_id a) (newDate updates a) (newTime updates a)
                (Some appointmentId) \<noteq> [])"
  unfolding updateAppointment_permitted [OF found perm] by simp

text \<open>
  C1. Create: when a doctor row with the requested id exists, is available and belongs to
  an active account, the handler fails with \<open>ConflictError\<close> exactly when some appointment
  of that doctor at exactly the requested date and time has status scheduled or confirmed;
  when there is no such doctor row it fails with \<open>NotFoundError\<close>. Update: for an
  appointment that exists, and a caller the handler lets through (an admin, the
  appointment's doctor, or its patient while it is scheduled and with no other key than
  date, time and reason), the handler fails with \<open>ConflictError\<close> exactly when the body
  gives a date or a time and some other appointment of the same doctor, scheduled or
  confirmed, is at exactly the date the body gives (the appointment's own date when it
  gives none) and the time the body gives (the appointment's own time when it gives none).
\<close>

theorem C1_conflict_check:
  "((\<exists>d \<in> set (doctors store). d_id d = cb_doctorId body \<and> is_available d
        \<and> (\<exists>u \<in> set (users store). u_id u = d_user_id d \<and> is_active u)) \<longrightarrow>
      (createAppointment usr body room store = Inl ConflictError) =
      (\<exists>a \<in> set (appointments store).
          doctor_id a = cb_doctorId body \<and> appointment_date a = cb_appointmentDate body
          \<and> appointment_time a = cb_appointmentTime body
          \<and> (status a = Scheduled \<or> status a = Confirmed)))
   \<and> (\<not> (\<exists>d \<in> set (doctors store). d_id d = cb_doctorId body \<and> is_available d
        \<and> (\<exists>u \<in> set (users store). u_id u = d_user_id d \<and> is_active u)) \<longrightarrow>
      createAppointment usr body room store = Inl NotFoundError)
   \<and> (primaryKeys store \<and> a \<in> set (appointments store) \<and> a_id a = appointmentId
        \<and> d \<in> set (doctors store) \<and> d_id d = doctor_id a
        \<and> (req_role usr = Admin
            \<or> req_role usr = Doctor \<and> d_user_id d = req_id usr
            \<or> req_role usr = Patient \<and> patient_id a = req_id usr \<and> status a = Scheduled
                \<and> set (keys updates)
                      \<subseteq> {''appointmentDate'', ''appointmentTime'', ''reasonForVisit''}) \<longrightarrow>
      (updateAppointment usr appointmentId updates store = Inl ConflictError) =
      ((ub_appointmentDate updates \<noteq> None \<or> ub_appointmentTime updates \<noteq> None)
       \<and> (\<exists>b \<in> set (appointments store).
              doctor_id b = doctor_id a
              \<and> appointment_date b =
                  (case ub_appointmentDate updates of
                     None \<Rightarrow> appointment_date a | Some day \<Rightarrow> day)
              \<and> appointment_time b =
                  (case ub_appointmentTime updates of
                     None \<Rightarrow> appointment_time a | Some t \<Rightarrow> t)
              \<and> (status b = Scheduled \<or> status b = Confirmed)
              \<and> a_id b \<noteq> appointmentId)))"
proof (intro conjI impI)
  assume "\<exists>d \<in> set (doctors store). d_id d = cb_doctorId body \<and> is_available d
        \<and> (\<exists>u \<in> set (users store). u_id u = d_user_id d \<and> is_active u)"
  then have "availableDoctors store (cb_doctorId body) \<noteq> []"
    by (simp only: availableDoctors_empty not_not simp_thms)
  then show "(createAppointment usr body room store = Inl ConflictError) =
      (\<exists>a \<in> set (appointments store).
          doctor_id a = cb_doctorId body \<and> appointment_date a = cb_appointmentDate body
          \<and> appointment_time a = cb_appointmentTime body
          \<and> (status a = Scheduled \<or> status a = Confirmed))"
    by (simp only: createAppointment_conflict conflicts_empty not_not option.case simp_thms)
next
  assume "\<not> (\<exists>d \<in> set (doctors store). d_id d = cb_doctorId body \<and> is_available d
        \<and> (\<exists>u \<in> set (users store). u_id u = d_user_id d \<and> is_active u))"
  then have "availableDoctors store (cb_doctorId body) = []"
    by (simp only: availableDoctors_empty simp_thms)
  then show "createAppointment usr body room store = Inl NotFoundError"
    by (rule createAppointment_no_doctor)
next
  assume h: "primaryKeys store \<and> a \<in> set (appointments store) \<and> a_id a = appointmentId
        \<and> d \<in> set (doctors store) \<and> d_id d = doctor_id a
        \<and> (req_role usr = Admin
            \<or> req_role usr = Doctor \<and> d_user_id d = req_id usr
            \<or> req_role usr = Patient \<and> patient_id a = req_id usr \<and> status a = Scheduled
                \<and> set (keys updates)
                      \<subseteq> {''appointmentDate'', ''appointmentTime'', ''reasonForVisit''})"
  then have found: "appointmentWithDoctor store appointmentId = (a, d_user_id d) # []"
    using appointmentWithDoctor_unique [of store a appointmentId d] by blast
  from h have perm: "req_role usr = Admin
            \<or> req_role usr = Doctor \<and> d_user_id d = req_id usr
            \<or> req_role usr = Patient \<and> patient_id a = req_id usr \<and> status a = Scheduled
                \<and> set (keys updates)
                      \<subseteq> {''appointmentDate'', ''appointmentTime'', ''reasonForVisit''}"
    by blast
  show "(updateAppointment usr appointmentId updates store = Inl ConflictError) =
      ((ub_appointmentDate updates \<noteq> None \<or> ub_appointmentTime updates \<noteq> None)
       \<and> (\<exists>b \<in> set (appointments store).
              doctor_id b = doctor_id a
              \<and> appointment_date b =
                  (case ub_appointmentDate updates of
                     None \<Rightarrow> appointment_date a | Some day \<Rightarrow> day)
              \<and> appointment_time b =
                  (case ub_appointmentTime updates of
                     None \<Rightarrow> appointment_time a | Some t \<Rightarrow> t)
              \<and> (status b = Scheduled \<or> status b = Confirmed)
              \<and> a_id b \<noteq> appointmentId))"
    unfolding updateAppointment_conflict [OF found perm] conflicts_empty newDate_def newTime_def
    by (simp only: not_not option.case simp_thms)
qed

lemma demo_hd_appointment:
  "a_id (hd (appointments demo_store)) = 21"
  "doctor_id (hd (appointments demo_store)) = 7"
  "appointment_date (hd (appointments demo_store)) = 19737"
  "appointment_time (hd (appointments demo_store)) = hm 10 0"
  "patient_id (hd (appointments demo_store)) = 2"
  "status (hd (appointments demo_store)) = Scheduled"
  by (simp_all add: demo_store_def)

lemma demo_hd_doctor:
  "d_id (hd (doctors demo_store)) = 7" "d_user_id (hd (doctors demo_store)) = 4"
  by (simp_all add: demo_store_def)

lemma demo_members:
  "hd (appointments demo_store) \<in> set (appointments demo_store)"
  "hd (doctors demo_store) \<in> set (doctors demo_store)"
  by (simp_all add: demo_store_def)

lemma busy_store_rows:
  "primaryKeys busy_store"
  "hd (appointments demo_store) \<in> set (appointments busy_store)"
  "doctors busy_store = doctors demo_store"
  by (simp_all add: busy_store_def primaryKeys_def demo_store_def)

lemma demo_move_keys:
  "keys move_to_11 = [''appointmentTime'']" "keys move_to_next_week = [''appointmentDate'']"
  by (simp_all add: keys_def move_to_11_def move_to_next_week_def no_updates_def)

lemma demo_move_fields:
  "ub_appointmentDate move_to_11 = None" "ub_appointmentTime move_to_11 = Some (hm 11 0)"
  "ub_appointmentDate move_to_next_week = Some 19744"
  "ub_appointmentTime move_to_next_week = None"
  by (simp_all add: move_to_11_def move_to_next_week_def no_updates_def)

theorem C1_witness:
  "createAppointment demo_patient3 taken_slot_body ''r'' demo_store = Inl ConflictError
   \<and> createAppointment demo_patient3 unknown_doctor_body ''r'' demo_store = Inl NotFoundError
   \<and> updateAppointment demo_patient2 21 move_to_11 demo_store = Inl ConflictError
   \<and> updateAppointment demo_patient2 21 move_to_next_week busy_store = Inl ConflictError
   \<and> updateAppointment demo_patient2 21 move_to_next_week demo_store \<noteq> Inl ConflictError"
proof -
  have "createAppointment demo_patient3 taken_slot_body ''r'' demo_store = Inl ConflictError"
    using C1_conflict_check [of demo_store taken_slot_body demo_patient3 "''r''"]
    by (simp add: taken_slot_body_def demo_store_def)
  moreover
  have "createAppointment demo_patient3 unknown_doctor_body ''r'' demo_store = Inl NotFoundError"
    using C1_conflict_check [of demo_store unknown_doctor_body demo_patient3 "''r''"]
    by (simp add: unknown_doctor_body_def taken_slot_body_def demo_store_def)
  moreover
  have p: "req_role demo_patient2 = Patient" "req_id demo_patient2 = 2"
    by (simp_all add: demo_patient2_def)
  have "updateAppointment demo_patient2 21 move_to_11 demo_store = Inl ConflictError"
    using C1_conflict_check [where store = demo_store and appointmentId = 21
            and a = "hd (appointments demo_store)" and d = "hd (doctors demo_store)"
            and usr = demo_patient2 and updates = move_to_11]
    by (simp add: demo_primaryKeys demo_members demo_hd_appointment demo_hd_doctor p
          demo_move_keys demo_move_fields)
       (simp add: demo_store_def)
  moreover
  have "updateAppointment demo_patient2 21 move_to_next_week busy_store = Inl ConflictError"
    using C1_conflict_check [where store = busy_store and appointmentId = 21
            and a = "hd (appointments demo_store)" and d = "hd (doctors demo_store)"
            and usr = demo_patient2 and updates = move_to_next_week]
    by (simp add: busy_store_rows demo_members demo_hd_appointment demo_hd_doctor p
          demo_move_keys demo_move_fields)
       (simp add: busy_store_def demo_store_def hm_def)
  moreover
  have "updateAppointment demo_patient2 21 move_to_next_week demo_store \<noteq> Inl ConflictError"
    using C1_conflict_check [where store = demo_store and appointmentId = 21
            and a = "hd (appointments demo_store)" and d = "hd (doctors demo_store)"
            and usr = demo_patient2 and updates = move_to_next_week]
    by (simp add: demo_primaryKeys demo_members demo_hd_appointment demo_hd_doctor p
          demo_move_keys demo_move_fields)
       (simp add: demo_store_def)
  ultimately show ?thesis by blast
qed


section \<open>Who may update what\<close>

text \<open>
  The route of \<open>PUT /appointments/:id\<close> for an authenticated caller: what the permission
  checks refuse, and when an update that has passed them is carried out.
\<close>

lemma transaction_Inl: "body store = Inl e \<Longrightarrow> transaction body store = (store, Inl e)"
  by (simp add: transaction_def)




lemma putAppointment_authenticated:
  assumes "authenticateToken store now authHeader = Inr usr"
      and "updateAppointmentValidation appointmentId updates"
  shows "putAppointment store now authHeader appointmentId updates =
           transaction (updateAppointment usr appointmentId updates) store"
  using assms by (simp add: putAppointment_def)









lemma demo_appointment_21:
  "appointmentWithDoctor demo_store 21 = [(hd (appointments demo_store), 4)]"
  by (simp add: appointmentWithDoctor_def demo_store_def)











text \<open>
  Outside the amended statement: a body with a key that every object inherits, here
  \<open>constructor\<close> next to the notes. \<open>fieldMapping\<close> yields a function for it, the \<open>UPDATE\<close>
  is malformed, and the admin's call fails with the database's error; nothing is stored.
\<close>

lemma demo_inherited_key:
  "putAppointment demo_store 2000 (Some demo_admin_access) 21 note_and_constructor =
     (demo_store, Inl DatabaseError)"
proof -
  have v: "updateAppointmentValidation 21 note_and_constructor"
    by (simp add: updateAppointmentValidation_def note_and_constructor_def add_note_def
          no_updates_def)
  have f: "updateFields note_and_constructor = [Column ''notes'', Inherited]"
    by (simp add: updateFields_def keys_def note_and_constructor_def add_note_def no_updates_def
          fieldMappingAt_def fieldMapping_def objectPrototype_def)
  have n: "ub_appointmentDate note_and_constructor = None"
    "ub_appointmentTime note_and_constructor = None"
    by (simp_all add: note_and_constructor_def add_note_def no_updates_def)
  show ?thesis
    unfolding putAppointment_authenticated [OF demo_admin_authenticate v]
    by (rule transaction_Inl)
       (simp add: updateAppointment_unfold [OF demo_appointment_21] canUpdate_def demo_admin_def
          n f)
qed

section \<open>Status changes out of a terminal state\<close>

































section \<open>Replacing a doctor's windows\<close>


















section \<open>Refresh token rotation\<close>

lemma demo_tokenA_eq:
  "demo_tokenA = Signed JWT_REFRESH_SECRET \<lparr>userId = 2, iat = 1000, exp = 605800\<rparr>"
  by (simp add: demo_tokenA_def generateTokens_def jwt_sign_def default_env_def)

lemma demo_login:
  "login default_env 1000 ''patient@demo.com'' ''demo123'' demo_store =
     (insertRefreshToken 2 demo_tokenA 605800 demo_store, Inr (generateTokens default_env 2 1000))"
proof -
  have "filter (\<lambda>u. email u = ''patient@demo.com'') (users demo_store) =
          [\<lparr>u_id = 2, email = ''patient@demo.com'', password_hash = BcryptHash ''demo123'',
            u_role = Patient, is_active = True\<rparr>]"
    by (simp add: demo_store_def)
  then show ?thesis
    by (simp add: login_def select_where Let_def demo_tokenA_def sevenDays_def)
qed

lemma after_login_tokens:
  "refresh_tokens after_login =
     [\<lparr>rt_id = 31, rt_user_id = 2, token_hash = BcryptHash demo_tokenA, expires_at = 605800,
       is_revoked = False\<rparr>]"
  "next_refresh_token_id after_login = 32"
  by (simp_all add: after_login_def demo_login insertRefreshToken_def)
     (simp_all add: demo_store_def)

lemma demo_verify_A:
  "jwt_verify demo_tokenA JWT_REFRESH_SECRET 1000 = Inr \<lparr>userId = 2, iat = 1000, exp = 605800\<rparr>"
  "jwt_verify demo_tokenA JWT_REFRESH_SECRET 1005 = Inr \<lparr>userId = 2, iat = 1000, exp = 605800\<rparr>"
  by (simp_all add: demo_tokenA_eq)

lemma demo_first_refresh:
  "refresh default_env 1000 (Some demo_tokenA) after_login =
     (insertRefreshToken 2 demo_tokenA 605800 (revokeToken 31 after_login),
      Inr (generateTokens default_env 2 1000))"
  by (simp add: refresh_def demo_verify_A select_where after_login_tokens Let_def sevenDays_def)
     (simp add: demo_tokenA_def)

lemma after_first_refresh_tokens:
  "refresh_tokens after_first_refresh =
     [\<lparr>rt_id = 31, rt_user_id = 2, token_hash = BcryptHash demo_tokenA, expires_at = 605800,
       is_revoked = True\<rparr>,
      \<lparr>rt_id = 32, rt_user_id = 2, token_hash = BcryptHash demo_tokenA, expires_at = 605800,
       is_revoked = False\<rparr>]"
  by (simp add: after_first_refresh_def demo_first_refresh insertRefreshToken_def revokeToken_def
        after_login_tokens)

lemma demo_second_refresh:
  "snd (refresh default_env 1005 (Some demo_tokenA) after_first_refresh) =
     Inr (generateTokens default_env 2 1005)"
  by (simp add: refresh_def demo_verify_A select_where after_first_refresh_tokens Let_def)

text \<open>
  C2, evaluated where it fails. Patient 2 logs in at second 1000 and receives refresh
  token A. Redeeming A within the same second succeeds, revokes the row of A and issues a
  pair whose refresh token is again A, the token being determined by the user id and the
  second of issue; its hash goes into a new row. Redeeming A once more, five seconds
  later, finds that new row and succeeds: A has been redeemed twice.
\<close>

theorem C2_same_second_reuse:
  "snd (login default_env 1000 ''patient@demo.com'' ''demo123'' demo_store)
     = Inr (generateTokens default_env 2 1000)
   \<and> refreshToken (generateTokens default_env 2 1000) = demo_tokenA
   \<and> snd (refresh default_env 1000 (Some demo_tokenA) after_login)
       = Inr (generateTokens default_env 2 1000)
   \<and> snd (refresh default_env 1005 (Some demo_tokenA) after_first_refresh)
       = Inr (generateTokens default_env 2 1005)"
proof -
  have "refreshToken (generateTokens default_env 2 1000) = demo_tokenA"
    by (simp only: demo_tokenA_def)
  then show ?thesis
    by (simp only: demo_login demo_first_refresh demo_second_refresh snd_conv simp_thms)
qed

text \<open>
  What rotation does achieve. When the pair issued by a redemption carries a refresh token
  other than the one redeemed, and the redeemed token was stored in at most one row that
  was not revoked, a later attempt to redeem it fails with a 401 failure, and the new
  token redeems while neither it nor its row has expired.
\<close>

lemma refresh_redeemed:
  assumes "refresh e now (Some t) store = (store', Inr ts)"
  obtains p v where "jwt_verify t JWT_REFRESH_SECRET now = Inr p"
    and "find (\<lambda>r. bcrypt_compare t (token_hash r))
           (filter (\<lambda>r. rt_user_id r = userId p \<and> expires_at r > now \<and> \<not> is_revoked r)
              (refresh_tokens store)) = Some v"
    and "ts = generateTokens e (userId p) now"
    and "store' = insertRefreshToken (userId p) (refreshToken ts) (now + sevenDays)
                    (revokeToken (rt_id v) store)"
proof (cases "jwt_verify t JWT_REFRESH_SECRET now")
  case (Inl err)
  with assms show ?thesis by (simp add: refresh_def)
next
  case (Inr p)
  show ?thesis
  proof (cases "find (\<lambda>r. bcrypt_compare t (token_hash r))
           (filter (\<lambda>r. rt_user_id r = userId p \<and> expires_at r > now \<and> \<not> is_revoked r)
              (refresh_tokens store))")
    case None
    with assms Inr show ?thesis by (simp add: refresh_def select_where)
  next
    case (Some v)
    with assms Inr have "ts = generateTokens e (userId p) now"
      and "store' = insertRefreshToken (userId p) (refreshToken ts) (now + sevenDays)
                    (revokeToken (rt_id v) store)"
      by (auto simp: refresh_def select_where Let_def)
    with Inr Some show ?thesis by (rule that)
  qed
qed

lemma short_list_eq:
  "length xs \<le> 1 \<Longrightarrow> x \<in> set xs \<Longrightarrow> y \<in> set xs \<Longrightarrow> x = y"
  by (cases xs) auto

lemma jwt_verify_later:
  assumes "jwt_verify t k now = Inr p"
  shows "jwt_verify t k now' = Inr p \<or> jwt_verify t k now' = Inl TokenExpiredError"
  using assms by (cases t) (auto split: if_splits)

lemma rows_after_refresh:
  "refresh_tokens (insertRefreshToken uid t x (revokeToken i store)) =
     map (\<lambda>r. if rt_id r = i then r\<lparr>is_revoked := True\<rparr> else r) (refresh_tokens store)
     @ [\<lparr>rt_id = next_refresh_token_id store, rt_user_id = uid, token_hash = BcryptHash t,
         expires_at = x, is_revoked = False\<rparr>]"
  by (simp add: insertRefreshToken_def revokeToken_def)

lemma old_row_not_live:
  assumes single: "length (filter (\<lambda>r. bcrypt_compare t (token_hash r) \<and> \<not> is_revoked r) rows) \<le> 1"
      and v: "v \<in> set rows" "bcrypt_compare t (token_hash v)" "\<not> is_revoked v"
      and r: "r \<in> set (map (\<lambda>r. if rt_id r = rt_id v then r\<lparr>is_revoked := True\<rparr> else r) rows)"
      and m: "bcrypt_compare t (token_hash r)"
  shows "is_revoked r"
proof -
  from r obtain r0 where r0: "r0 \<in> set rows"
    and eq: "r = (if rt_id r0 = rt_id v then r0\<lparr>is_revoked := True\<rparr> else r0)"
    by (auto simp only: set_map image_iff)
  show ?thesis
  proof (cases "rt_id r0 = rt_id v")
    case True
    with eq show ?thesis by simp
  next
    case False
    with eq have rr: "r = r0" by simp
    show ?thesis
    proof (rule ccontr)
      assume "\<not> is_revoked r"
      with rr m r0 have "r0 \<in> set (filter (\<lambda>r. bcrypt_compare t (token_hash r) \<and> \<not> is_revoked r) rows)"
        by simp
      moreover from v have "v \<in> set (filter (\<lambda>r. bcrypt_compare t (token_hash r) \<and> \<not> is_revoked r) rows)"
        by simp
      ultimately have "r0 = v" using single by (rule short_list_eq [rotated])
      with False show False by simp
    qed
  qed
qed

lemma refresh_rotation:
  assumes first: "refresh e now (Some tA) store = (store', Inr ts)"
      and fresh: "refreshToken ts \<noteq> tA"
      and single: "length (filter (\<lambda>r. bcrypt_compare tA (token_hash r) \<and> \<not> is_revoked r)
                            (refresh_tokens store)) \<le> 1"
  shows "snd (refresh e now' (Some tA) store') = Inl UnauthorizedError
         \<or> snd (refresh e now' (Some tA) store') = Inl TokenExpiredError"
proof -
  from first obtain p v where p: "jwt_verify tA JWT_REFRESH_SECRET now = Inr p"
    and f: "find (\<lambda>r. bcrypt_compare tA (token_hash r))
           (filter (\<lambda>r. rt_user_id r = userId p \<and> expires_at r > now \<and> \<not> is_revoked r)
              (refresh_tokens store)) = Some v"
    and ts: "ts = generateTokens e (userId p) now"
    and st: "store' = insertRefreshToken (userId p) (refreshToken ts) (now + sevenDays)
                    (revokeToken (rt_id v) store)"
    by (rule refresh_redeemed)
  from f have v: "v \<in> set (refresh_tokens store)" "bcrypt_compare tA (token_hash v)"
    "\<not> is_revoked v"
    by (auto simp: find_Some_iff in_set_conv_nth dest: nth_mem)
  from jwt_verify_later [OF p, of now']
  show ?thesis
  proof
    assume "jwt_verify tA JWT_REFRESH_SECRET now' = Inl TokenExpiredError"
    then show ?thesis by (simp add: refresh_def)
  next
    assume p': "jwt_verify tA JWT_REFRESH_SECRET now' = Inr p"
    let ?live = "filter (\<lambda>r. rt_user_id r = userId p \<and> expires_at r > now' \<and> \<not> is_revoked r)
                   (refresh_tokens store')"
    have "\<not> (\<exists>r \<in> set ?live. bcrypt_compare tA (token_hash r))"
    proof
      assume "\<exists>r \<in> set ?live. bcrypt_compare tA (token_hash r)"
      then obtain r where r: "r \<in> set (refresh_tokens store')" "\<not> is_revoked r"
        and m: "bcrypt_compare tA (token_hash r)" by auto
      from r(1) have "r \<in> set (map (\<lambda>r. if rt_id r = rt_id v then r\<lparr>is_revoked := True\<rparr> else r)
                                 (refresh_tokens store))
          \<union> set [\<lparr>rt_id = next_refresh_token_id store, rt_user_id = userId p,
                  token_hash = BcryptHash (refreshToken ts), expires_at = now + sevenDays,
                  is_revoked = False\<rparr>]"
        unfolding st rows_after_refresh set_append .
      then have "r \<in> set (map (\<lambda>r. if rt_id r = rt_id v then r\<lparr>is_revoked := True\<rparr> else r)
                                 (refresh_tokens store))
          \<or> r = \<lparr>rt_id = next_refresh_token_id store, rt_user_id = userId p,
                  token_hash = BcryptHash (refreshToken ts), expires_at = now + sevenDays,
                  is_revoked = False\<rparr>"
        by (simp only: Un_iff list.set insert_iff empty_iff simp_thms)
      then show False
      proof
        assume "r \<in> set (map (\<lambda>r. if rt_id r = rt_id v then r\<lparr>is_revoked := True\<rparr> else r)
                                 (refresh_tokens store))"
        from old_row_not_live [OF single v this m] r(2) show False by simp
      next
        assume "r = \<lparr>rt_id = next_refresh_token_id store, rt_user_id = userId p,
                  token_hash = BcryptHash (refreshToken ts), expires_at = now + sevenDays,
                  is_revoked = False\<rparr>"
        with m fresh show False by simp
      qed
    qed
    then have "find (\<lambda>r. bcrypt_compare tA (token_hash r)) ?live = None"
      unfolding find_None_iff by blast
    with p' show ?thesis by (simp add: refresh_def select_where)
  qed
qed

lemma refresh_new_token:
  assumes first: "refresh e now (Some tA) store = (store', Inr ts)"
      and soon: "now \<le> now'" "now' < now + JWT_REFRESH_EXPIRES_IN e" "now' < now + sevenDays"
  shows "\<exists>ts'. snd (refresh e now' (Some (refreshToken ts)) store') = Inr ts'"
proof -
  from first obtain p v where "jwt_verify tA JWT_REFRESH_SECRET now = Inr p"
    and "find (\<lambda>r. bcrypt_compare tA (token_hash r))
           (filter (\<lambda>r. rt_user_id r = userId p \<and> expires_at r > now \<and> \<not> is_revoked r)
              (refresh_tokens store)) = Some v"
    and ts: "ts = generateTokens e (userId p) now"
    and st: "store' = insertRefreshToken (userId p) (refreshToken ts) (now + sevenDays)
                    (revokeToken (rt_id v) store)"
    by (rule refresh_redeemed)
  let ?new = "\<lparr>rt_id = next_refresh_token_id store, rt_user_id = userId p,
                  token_hash = BcryptHash (refreshToken ts), expires_at = now + sevenDays,
                  is_revoked = False\<rparr>"
  let ?p = "\<lparr>userId = userId p, iat = now, exp = now + JWT_REFRESH_EXPIRES_IN e\<rparr>"
  from soon have p': "jwt_verify (refreshToken ts) JWT_REFRESH_SECRET now' = Inr ?p"
    by (simp add: ts generateTokens_def jwt_sign_def)
  let ?live = "filter (\<lambda>r. rt_user_id r = userId ?p \<and> expires_at r > now' \<and> \<not> is_revoked r)
                   (refresh_tokens store')"
  from soon have "?new \<in> set ?live"
    unfolding st rows_after_refresh by simp
  moreover have "bcrypt_compare (refreshToken ts) (token_hash ?new)" by simp
  ultimately have "find (\<lambda>r. bcrypt_compare (refreshToken ts) (token_hash r)) ?live \<noteq> None"
    unfolding find_None_iff by blast
  then obtain w where "find (\<lambda>r. bcrypt_compare (refreshToken ts) (token_hash r)) ?live = Some w"
    by blast
  with p' show ?thesis by (simp add: refresh_def select_where Let_def)
qed

end
